theory Spec2Isabelle
  imports Complex_Main
begin

section \<open>Values exchanged between the handlers and their collaborators\<close>

text \<open>
  The two endpoint modules (\<^verbatim>\<open>/api/contact\<close>, \<^verbatim>\<open>/api/newsletter\<close>) are glue code: every
  step of a request is a call into a helper module (\<^verbatim>\<open>security.js\<close>, \<^verbatim>\<open>securityHeaders.js\<close>,
  \<^verbatim>\<open>emailService.js\<close>, \<^verbatim>\<open>errorTracking.js\<close>) or into the framework (\<^verbatim>\<open>request.json()\<close>,
  \<^verbatim>\<open>Date.now()\<close>). None of these helpers is part of the sources at hand, so the handlers are
  embedded over a record of collaborators, and every call a handler makes is written to a
  list of calls, in program order.

  A JavaScript value that is handed to \<^verbatim>\<open>JSON.stringify\<close> is kept as a value of type
  \<open>json\<close>; a response body is the value that was serialised (\<open>None\<close> for the \<^verbatim>\<open>null\<close> body of
  the preflight responses).
\<close>

datatype json =
    JNull
  | JBool bool
  | JNum int
  | JStr string
  | JArr "json list"
  | JObj "(string \<times> json) list"

record request =
  request_method :: string
  request_headers :: "(string \<times> string) list"
  request_body :: string

record response =
  status :: nat
  headers :: "(string \<times> string) list"
  body :: "json option"

text \<open>\<^verbatim>\<open>new Response(body, { status, headers })\<close>\<close>

definition Response :: "json option \<Rightarrow> nat \<Rightarrow> (string \<times> string) list \<Rightarrow> response" where
  "Response b st hs = \<lparr>status = st, headers = hs, body = b\<rparr>"

text \<open>The result of \<^verbatim>\<open>checkRateLimit\<close>: the handlers read \<^verbatim>\<open>allowed\<close>, \<^verbatim>\<open>remaining\<close> and
  \<^verbatim>\<open>resetTime\<close> (a timestamp in milliseconds).\<close>

record rate_limit =
  allowed :: bool
  remaining :: int
  resetTime :: int

text \<open>The result of a form validator: the handlers read \<^verbatim>\<open>valid\<close>, \<^verbatim>\<open>errors\<close> and
  \<^verbatim>\<open>sanitized\<close>. The non-null assertion of \<^verbatim>\<open>validation.sanitized!\<close> exists only for the type
  checker, so the email sender receives the field as it is.\<close>

record validation =
  valid :: bool
  errors :: "string list"
  sanitized :: "json option"

text \<open>A value caught by \<^verbatim>\<open>catch (error)\<close>: an \<^verbatim>\<open>Error\<close> object with its message, or any
  other thrown value, kept as \<^verbatim>\<open>String(error)\<close>.\<close>

datatype thrown = ErrorObject string | OtherValue string

text \<open>\<^verbatim>\<open>error instanceof Error ? error : new Error(String(error))\<close>\<close>

fun as_Error :: "thrown \<Rightarrow> thrown" where
  "as_Error (ErrorObject m) = ErrorObject m"
| "as_Error (OtherValue s) = ErrorObject s"

record log_context =
  component :: string
  action :: string
  endpoint :: string

text \<open>One constructor for each collaborator a handler can call, with the arguments of the
  call.\<close>

datatype event =
    ValidateOrigin request
  | GetClientIP request
  | CheckRateLimit string
  | RequestJson request
  | ValidateContactForm json
  | ValidateNewsletterForm json
  | SendContactEmail "json option"
  | SendNewsletterWelcome "json option"
  | LogError thrown log_context string
  | ApplySecurityHeaders response string

text \<open>
  The collaborators. \<open>checkRateLimit\<close> owns the only shared mutable state, of type \<open>'s\<close>, which
  is threaded through the call. \<^verbatim>\<open>request.json()\<close>, the form validators and the email senders
  return \<open>Inl\<close> of the thrown value when they throw. The origin guard, the address lookup, the
  rate limiter and the header injection are given here by what they return; the exceptions
  that they and the logger can raise instead are a second record, \<open>faults\<close>, below.
  \<open>Date_now k\<close> is the \<open>k\<close>-th reading of \<^verbatim>\<open>Date.now()\<close> that the handler makes while it serves
  the request: two readings need not agree.
\<close>

record 's env =
  validateOrigin :: "request \<Rightarrow> bool"
  getClientIP :: "request \<Rightarrow> string"
  checkRateLimit :: "string \<Rightarrow> 's \<Rightarrow> rate_limit \<times> 's"
  request_json :: "request \<Rightarrow> thrown + json"
  validateContactForm :: "json \<Rightarrow> thrown + validation"
  validateNewsletterForm :: "json \<Rightarrow> thrown + validation"
  sendContactEmail :: "json option \<Rightarrow> thrown + unit"
  sendNewsletterWelcome :: "json option \<Rightarrow> thrown + unit"
  applySecurityHeaders :: "response \<Rightarrow> string \<Rightarrow> response"
  Date_now :: "nat \<Rightarrow> int"

section \<open>Numbers in the 429 response\<close>

text \<open>
  \<^verbatim>\<open>Math.ceil(x / 1000)\<close> for a difference \<open>x\<close> of two millisecond timestamps, in integer
  arithmetic. JavaScript computes on doubles. A double holds every integer of magnitude
  below \<open>2^53\<close> exactly; for two such timestamps whose difference is again below \<open>2^53\<close> the
  subtraction is exact, the rounded quotient by 1000 lies on the same side of every integer
  as the exact one, and \<^verbatim>\<open>toString\<close> prints all digits, so there the integer model and the
  double computation agree (\<^verbatim>\<open>-0\<close>, which \<^verbatim>\<open>Math.ceil\<close> returns for a quotient in \<open>(-1, 0)\<close>,
  prints as \<^verbatim>\<open>0\<close> both in JSON and through \<^verbatim>\<open>toString\<close>). Beyond that range the model does
  not speak for the code; \<open>exact_delay\<close> is the range, and the theorems about the numbers of
  the 429 response assume it.
\<close>

definition Math_ceil_div1000 :: "int \<Rightarrow> int" where
  "Math_ceil_div1000 x = - ((- x) div 1000)"

fun digits :: "nat \<Rightarrow> string" where
  "digits n = (if n < 10 then [''0123456789'' ! n]
               else digits (n div 10) @ [''0123456789'' ! (n mod 10)])"

declare digits.simps [simp del]

text \<open>\<^verbatim>\<open>Number.prototype.toString\<close> on an integer.\<close>

definition toString :: "int \<Rightarrow> string" where
  "toString i = (if i < 0 then CHR ''-'' # digits (nat (- i)) else digits (nat i))"

text \<open>\<^verbatim>\<open>Number.isSafeInteger\<close>, and the range in which a retry delay is computed exactly.\<close>

definition safe_integer :: "int \<Rightarrow> bool" where
  "safe_integer x = (- (2 ^ 53) < x \<and> x < 2 ^ 53)"

definition exact_delay :: "int \<Rightarrow> int \<Rightarrow> bool" where
  "exact_delay reset now = (safe_integer reset \<and> safe_integer now \<and> safe_integer (reset - now))"

text \<open>Reading a header value back: the number that a decimal numeral with an optional
  minus sign denotes.\<close>

definition digit_value :: "char \<Rightarrow> nat" where
  "digit_value c = of_char c - 48"

definition decimal :: "string \<Rightarrow> nat" where
  "decimal cs = foldl (\<lambda>a c. 10 * a + digit_value c) 0 cs"

definition Number_of_string :: "string \<Rightarrow> int" where
  "Number_of_string cs =
     (case cs of
        [] \<Rightarrow> 0
      | c # ds \<Rightarrow> if c = CHR ''-'' then - int (decimal ds) else int (decimal cs))"

section \<open>The responses the handlers build\<close>

definition content_type_json :: "(string \<times> string) list" where
  "content_type_json = [(''Content-Type'', ''application/json'')]"

definition method_not_allowed :: response where
  "method_not_allowed =
     Response (Some (JObj [(''success'', JBool False), (''error'', JStr ''Method not allowed'')]))
       405 content_type_json"

definition invalid_origin :: response where
  "invalid_origin =
     Response (Some (JObj [(''success'', JBool False), (''error'', JStr ''Invalid origin'')]))
       403 content_type_json"

definition too_many_requests :: "'s env \<Rightarrow> rate_limit \<Rightarrow> response" where
  "too_many_requests env rateLimit =
     Response
       (Some (JObj [(''success'', JBool False),
                    (''error'', JStr ''Too many requests. Please try again later.''),
                    (''retryAfter'', JNum (Math_ceil_div1000 (resetTime rateLimit - Date_now env 0)))]))
       429
       [(''Content-Type'', ''application/json''),
        (''Retry-After'', toString (Math_ceil_div1000 (resetTime rateLimit - Date_now env 1)))]"

definition validation_failed :: "validation \<Rightarrow> response" where
  "validation_failed v =
     Response
       (Some (JObj [(''success'', JBool False),
                    (''error'', JStr ''Validation failed''),
                    (''details'', JArr (map JStr (errors v)))]))
       400 content_type_json"

definition contact_sent :: "rate_limit \<Rightarrow> response" where
  "contact_sent rateLimit =
     Response
       (Some (JObj [(''success'', JBool True),
                    (''message'', JStr (''Message sent successfully! We'' @ [CHR 0x27] @
                                        ''ll get back to you soon.'')),
                    (''remaining'', JNum (remaining rateLimit))]))
       200 content_type_json"

definition newsletter_subscribed :: "rate_limit \<Rightarrow> response" where
  "newsletter_subscribed rateLimit =
     Response
       (Some (JObj [(''success'', JBool True),
                    (''message'',
                     JStr ''Successfully subscribed! Check your email for a welcome message.''),
                    (''remaining'', JNum (remaining rateLimit))]))
       200 content_type_json"

definition internal_server_error :: response where
  "internal_server_error =
     Response
       (Some (JObj [(''success'', JBool False),
                    (''error'', JStr ''Internal server error. Please try again later.'')]))
       500 content_type_json"

section \<open>The contact endpoint\<close>

text \<open>
  A handler run returns the response, the calls it made in order, and the rate limiter's
  state afterwards. \<open>contact_try\<close> is the body of the \<^verbatim>\<open>try\<close> block: \<open>Inl\<close> is a value thrown
  inside it, which \<open>contact_POST\<close> catches. In this section and the next the origin guard, the
  address lookup, the rate limiter, the header injection and the logger return; the section
  after them lets these throw as well.
\<close>

definition contact_try ::
  "'s env \<Rightarrow> request \<Rightarrow> 's \<Rightarrow> (thrown + response) \<times> event list \<times> 's" where
  "contact_try env request s =
    (if request_method request \<noteq> ''POST'' then
       (Inr (applySecurityHeaders env method_not_allowed ''api''),
        [ApplySecurityHeaders method_not_allowed ''api''], s)
     else if \<not> validateOrigin env request then
       (Inr (applySecurityHeaders env invalid_origin ''api''),
        [ValidateOrigin request, ApplySecurityHeaders invalid_origin ''api''], s)
     else
       (let clientIP = getClientIP env request;
            (rateLimit, s') = checkRateLimit env clientIP s;
            cs = [ValidateOrigin request, GetClientIP request, CheckRateLimit clientIP]
        in if \<not> allowed rateLimit then
             (Inr (too_many_requests env rateLimit), cs, s')
           else
             (case request_json env request of
                Inl error \<Rightarrow> (Inl error, cs @ [RequestJson request], s')
              | Inr data \<Rightarrow>
                 (case validateContactForm env data of
                    Inl error \<Rightarrow>
                      (Inl error, cs @ [RequestJson request, ValidateContactForm data], s')
                  | Inr validation \<Rightarrow>
                      if \<not> valid validation then
                        (Inr (validation_failed validation),
                         cs @ [RequestJson request, ValidateContactForm data], s')
                      else
                        (case sendContactEmail env (sanitized validation) of
                           Inl error \<Rightarrow>
                             (Inl error,
                              cs @ [RequestJson request, ValidateContactForm data,
                                    SendContactEmail (sanitized validation)], s')
                         | Inr _ \<Rightarrow>
                             (Inr (applySecurityHeaders env (contact_sent rateLimit) ''api''),
                              cs @ [RequestJson request, ValidateContactForm data,
                                    SendContactEmail (sanitized validation),
                                    ApplySecurityHeaders (contact_sent rateLimit) ''api''],
                              s'))))))"

definition contact_log_context :: log_context where
  "contact_log_context =
     \<lparr>component = ''contact-api'', action = ''form-submission'', endpoint = ''/api/contact''\<rparr>"

definition contact_POST :: "'s env \<Rightarrow> request \<Rightarrow> 's \<Rightarrow> response \<times> event list \<times> 's" where
  "contact_POST env request s =
    (case contact_try env request s of
       (Inr response, cs, s') \<Rightarrow> (response, cs, s')
     | (Inl error, cs, s') \<Rightarrow>
         (applySecurityHeaders env internal_server_error ''api'',
          cs @ [LogError (as_Error error) contact_log_context ''high'',
                ApplySecurityHeaders internal_server_error ''api''],
          s'))"

text \<open>The preflight handler is declared as \<^verbatim>\<open>async () => ...\<close>: the framework hands it the
  request context, and it does not look at it.\<close>

definition contact_preflight :: response where
  "contact_preflight =
     Response None 200
       [(''Access-Control-Allow-Origin'', ''https://johnciresi.com''),
        (''Access-Control-Allow-Methods'', ''POST, OPTIONS''),
        (''Access-Control-Allow-Headers'', ''Content-Type'')]"

definition contact_OPTIONS :: "'s env \<Rightarrow> request \<Rightarrow> 's \<Rightarrow> response \<times> event list \<times> 's" where
  "contact_OPTIONS env request s =
     (applySecurityHeaders env contact_preflight ''api'',
      [ApplySecurityHeaders contact_preflight ''api''], s)"

section \<open>The newsletter endpoint\<close>

definition newsletter_try ::
  "'s env \<Rightarrow> request \<Rightarrow> 's \<Rightarrow> (thrown + response) \<times> event list \<times> 's" where
  "newsletter_try env request s =
    (if request_method request \<noteq> ''POST'' then
       (Inr (applySecurityHeaders env method_not_allowed ''api''),
        [ApplySecurityHeaders method_not_allowed ''api''], s)
     else if \<not> validateOrigin env request then
       (Inr (applySecurityHeaders env invalid_origin ''api''),
        [ValidateOrigin request, ApplySecurityHeaders invalid_origin ''api''], s)
     else
       (let clientIP = getClientIP env request;
            (rateLimit, s') = checkRateLimit env clientIP s;
            cs = [ValidateOrigin request, GetClientIP request, CheckRateLimit clientIP]
        in if \<not> allowed rateLimit then
             (Inr (too_many_requests env rateLimit), cs, s')
           else
             (case request_json env request of
                Inl error \<Rightarrow> (Inl error, cs @ [RequestJson request], s')
              | Inr data \<Rightarrow>
                 (case validateNewsletterForm env data of
                    Inl error \<Rightarrow>
                      (Inl error, cs @ [RequestJson request, ValidateNewsletterForm data], s')
                  | Inr validation \<Rightarrow>
                      if \<not> valid validation then
                        (Inr (validation_failed validation),
                         cs @ [RequestJson request, ValidateNewsletterForm data], s')
                      else
                        (case sendNewsletterWelcome env (sanitized validation) of
                           Inl error \<Rightarrow>
                             (Inl error,
                              cs @ [RequestJson request, ValidateNewsletterForm data,
                                    SendNewsletterWelcome (sanitized validation)], s')
                         | Inr _ \<Rightarrow>
                             (Inr (newsletter_subscribed rateLimit),
                              cs @ [RequestJson request, ValidateNewsletterForm data,
                                    SendNewsletterWelcome (sanitized validation)],
                              s'))))))"

definition newsletter_log_context :: log_context where
  "newsletter_log_context =
     \<lparr>component = ''newsletter-api'', action = ''subscription'',
      endpoint = ''/api/newsletter''\<rparr>"

definition newsletter_POST :: "'s env \<Rightarrow> request \<Rightarrow> 's \<Rightarrow> response \<times> event list \<times> 's" where
  "newsletter_POST env request s =
    (case newsletter_try env request s of
       (Inr response, cs, s') \<Rightarrow> (response, cs, s')
     | (Inl error, cs, s') \<Rightarrow>
         (internal_server_error,
          cs @ [LogError (as_Error error) newsletter_log_context ''high''],
          s'))"

definition newsletter_preflight :: response where
  "newsletter_preflight =
     Response None 200
       [(''Access-Control-Allow-Origin'', ''*''),
        (''Access-Control-Allow-Methods'', ''POST, OPTIONS''),
        (''Access-Control-Allow-Headers'', ''Content-Type'')]"

definition newsletter_OPTIONS :: "'s env \<Rightarrow> request \<Rightarrow> 's \<Rightarrow> response \<times> event list \<times> 's" where
  "newsletter_OPTIONS env request s = (newsletter_preflight, [], s)"

section \<open>Collaborators that throw\<close>

text \<open>
  The \<^verbatim>\<open>try\<close> block of a handler encloses every call it makes, and the \<^verbatim>\<open>catch\<close> block calls
  \<^verbatim>\<open>logError\<close> (and, in the contact handler, \<^verbatim>\<open>applySecurityHeaders\<close>) with no guard of its own.
  \<open>faults\<close> says which calls of the origin guard, the address lookup, the rate limiter, the
  header injection and the logger throw, and what: \<open>Some\<close> of the thrown value, for the rate
  limiter together with the state it leaves behind. A run of a handler is now an attempt:
  \<open>Inr\<close> of the response, or \<open>Inl\<close> of the value that the handler's promise is rejected with,
  beside the calls made and the rate limiter's state.
\<close>

record 's faults =
  validateOrigin_throws :: "request \<Rightarrow> thrown option"
  getClientIP_throws :: "request \<Rightarrow> thrown option"
  checkRateLimit_throws :: "string \<Rightarrow> 's \<Rightarrow> (thrown \<times> 's) option"
  applySecurityHeaders_throws :: "response \<Rightarrow> string \<Rightarrow> thrown option"
  logError_throws :: "thrown \<Rightarrow> log_context \<Rightarrow> string \<Rightarrow> thrown option"

type_synonym ('a, 's) attempt = "(thrown + 'a) \<times> event list \<times> 's"

definition returns :: "'a \<Rightarrow> event list \<Rightarrow> 's \<Rightarrow> ('a, 's) attempt" where
  "returns x cs s = (Inr x, cs, s)"

text \<open>Sequencing: a thrown value skips the rest of the block.\<close>

definition and_then ::
  "('a, 's) attempt \<Rightarrow> ('a \<Rightarrow> event list \<Rightarrow> 's \<Rightarrow> ('b, 's) attempt) \<Rightarrow> ('b, 's) attempt" where
  "and_then a f =
     (case a of
        (Inl error, cs, s) \<Rightarrow> (Inl error, cs, s)
      | (Inr x, cs, s) \<Rightarrow> f x cs s)"

text \<open>A call is recorded, then it returns or throws.\<close>

definition call ::
  "event \<Rightarrow> thrown + 'a \<Rightarrow> event list \<Rightarrow> 's \<Rightarrow> ('a, 's) attempt" where
  "call e result cs s = (result, cs @ [e], s)"

definition call_validateOrigin ::
  "'s faults \<Rightarrow> 's env \<Rightarrow> request \<Rightarrow> event list \<Rightarrow> 's \<Rightarrow> (bool, 's) attempt" where
  "call_validateOrigin faults env request cs s =
     ((case validateOrigin_throws faults request of
         Some error \<Rightarrow> Inl error
       | None \<Rightarrow> Inr (validateOrigin env request)),
      cs @ [ValidateOrigin request], s)"

definition call_getClientIP ::
  "'s faults \<Rightarrow> 's env \<Rightarrow> request \<Rightarrow> event list \<Rightarrow> 's \<Rightarrow> (string, 's) attempt" where
  "call_getClientIP faults env request cs s =
     ((case getClientIP_throws faults request of
         Some error \<Rightarrow> Inl error
       | None \<Rightarrow> Inr (getClientIP env request)),
      cs @ [GetClientIP request], s)"

definition call_checkRateLimit ::
  "'s faults \<Rightarrow> 's env \<Rightarrow> string \<Rightarrow> event list \<Rightarrow> 's \<Rightarrow> (rate_limit, 's) attempt" where
  "call_checkRateLimit faults env clientIP cs s =
     (case checkRateLimit_throws faults clientIP s of
        Some (error, s') \<Rightarrow> (Inl error, cs @ [CheckRateLimit clientIP], s')
      | None \<Rightarrow>
          (case checkRateLimit env clientIP s of
             (rateLimit, s') \<Rightarrow> (Inr rateLimit, cs @ [CheckRateLimit clientIP], s')))"

definition call_applySecurityHeaders ::
  "'s faults \<Rightarrow> 's env \<Rightarrow> response \<Rightarrow> string \<Rightarrow> event list \<Rightarrow> 's \<Rightarrow> (response, 's) attempt" where
  "call_applySecurityHeaders faults env response kind cs s =
     ((case applySecurityHeaders_throws faults response kind of
         Some error \<Rightarrow> Inl error
       | None \<Rightarrow> Inr (applySecurityHeaders env response kind)),
      cs @ [ApplySecurityHeaders response kind], s)"

definition call_logError ::
  "'s faults \<Rightarrow> thrown \<Rightarrow> log_context \<Rightarrow> string \<Rightarrow> event list \<Rightarrow> 's \<Rightarrow> (unit, 's) attempt" where
  "call_logError faults error ctx severity cs s =
     ((case logError_throws faults error ctx severity of
         Some error' \<Rightarrow> Inl error'
       | None \<Rightarrow> Inr ()),
      cs @ [LogError error ctx severity], s)"

text \<open>The \<^verbatim>\<open>try\<close> block and the whole handler of the contact endpoint.\<close>

definition contact_try_exn ::
  "'s faults \<Rightarrow> 's env \<Rightarrow> request \<Rightarrow> 's \<Rightarrow> (response, 's) attempt" where
  "contact_try_exn faults env request s0 =
    (if request_method request \<noteq> ''POST'' then
       call_applySecurityHeaders faults env method_not_allowed ''api'' [] s0
     else
       and_then (call_validateOrigin faults env request [] s0) (\<lambda>origin_ok cs s.
         if \<not> origin_ok then
           call_applySecurityHeaders faults env invalid_origin ''api'' cs s
         else
           and_then (call_getClientIP faults env request cs s) (\<lambda>clientIP cs s.
           and_then (call_checkRateLimit faults env clientIP cs s) (\<lambda>rateLimit cs s.
             if \<not> allowed rateLimit then
               returns (too_many_requests env rateLimit) cs s
             else
               and_then (call (RequestJson request) (request_json env request) cs s) (\<lambda>data cs s.
               and_then (call (ValidateContactForm data) (validateContactForm env data) cs s)
                 (\<lambda>validation cs s.
                 if \<not> valid validation then
                   returns (validation_failed validation) cs s
                 else
                   and_then (call (SendContactEmail (sanitized validation))
                               (sendContactEmail env (sanitized validation)) cs s) (\<lambda>_ cs s.
                     call_applySecurityHeaders faults env (contact_sent rateLimit) ''api''
                       cs s)))))))"

definition contact_POST_exn ::
  "'s faults \<Rightarrow> 's env \<Rightarrow> request \<Rightarrow> 's \<Rightarrow> (response, 's) attempt" where
  "contact_POST_exn faults env request s0 =
    (case contact_try_exn faults env request s0 of
       (Inr response, cs, s) \<Rightarrow> (Inr response, cs, s)
     | (Inl error, cs, s) \<Rightarrow>
         and_then (call_logError faults (as_Error error) contact_log_context ''high'' cs s)
           (\<lambda>_ cs s. call_applySecurityHeaders faults env internal_server_error ''api'' cs s))"

text \<open>The \<^verbatim>\<open>try\<close> block and the whole handler of the newsletter endpoint.\<close>

definition newsletter_try_exn ::
  "'s faults \<Rightarrow> 's env \<Rightarrow> request \<Rightarrow> 's \<Rightarrow> (response, 's) attempt" where
  "newsletter_try_exn faults env request s0 =
    (if request_method request \<noteq> ''POST'' then
       call_applySecurityHeaders faults env method_not_allowed ''api'' [] s0
     else
       and_then (call_validateOrigin faults env request [] s0) (\<lambda>origin_ok cs s.
         if \<not> origin_ok then
           call_applySecurityHeaders faults env invalid_origin ''api'' cs s
         else
           and_then (call_getClientIP faults env request cs s) (\<lambda>clientIP cs s.
           and_then (call_checkRateLimit faults env clientIP cs s) (\<lambda>rateLimit cs s.
             if \<not> allowed rateLimit then
               returns (too_many_requests env rateLimit) cs s
             else
               and_then (call (RequestJson request) (request_json env request) cs s) (\<lambda>data cs s.
               and_then (call (ValidateNewsletterForm data) (validateNewsletterForm env data) cs s)
                 (\<lambda>validation cs s.
                 if \<not> valid validation then
                   returns (validation_failed validation) cs s
                 else
                   and_then (call (SendNewsletterWelcome (sanitized validation))
                               (sendNewsletterWelcome env (sanitized validation)) cs s)
                     (\<lambda>_ cs s. returns (newsletter_subscribed rateLimit) cs s)))))))"

definition newsletter_POST_exn ::
  "'s faults \<Rightarrow> 's env \<Rightarrow> request \<Rightarrow> 's \<Rightarrow> (response, 's) attempt" where
  "newsletter_POST_exn faults env request s0 =
    (case newsletter_try_exn faults env request s0 of
       (Inr response, cs, s) \<Rightarrow> (Inr response, cs, s)
     | (Inl error, cs, s) \<Rightarrow>
         and_then (call_logError faults (as_Error error) newsletter_log_context ''high'' cs s)
           (\<lambda>_ cs s. returns internal_server_error cs s))"

text \<open>With \<open>no_faults\<close> these are the handlers of the two sections before.\<close>

definition no_faults :: "'s faults" where
  "no_faults =
     \<lparr>validateOrigin_throws = (\<lambda>_. None),
      getClientIP_throws = (\<lambda>_. None),
      checkRateLimit_throws = (\<lambda>_ _. None),
      applySecurityHeaders_throws = (\<lambda>_ _. None),
      logError_throws = (\<lambda>_ _ _. None)\<rparr>"


section \<open>Reading a run\<close>

definition returned :: "response \<times> event list \<times> 's \<Rightarrow> response" where
  "returned out = fst out"

definition calls :: "response \<times> event list \<times> 's \<Rightarrow> event list" where
  "calls out = fst (snd out)"

definition limiter_state :: "response \<times> event list \<times> 's \<Rightarrow> 's" where
  "limiter_state out = snd (snd out)"

text \<open>The calls that do the work of a submission: rate limiting, reading the body,
  validating it, sending email.\<close>

fun is_rate_limit_call :: "event \<Rightarrow> bool" where
  "is_rate_limit_call (CheckRateLimit _) = True"
| "is_rate_limit_call _ = False"

fun is_body_call :: "event \<Rightarrow> bool" where
  "is_body_call (RequestJson _) = True"
| "is_body_call _ = False"

fun is_validation_call :: "event \<Rightarrow> bool" where
  "is_validation_call (ValidateContactForm _) = True"
| "is_validation_call (ValidateNewsletterForm _) = True"
| "is_validation_call _ = False"

fun is_email_call :: "event \<Rightarrow> bool" where
  "is_email_call (SendContactEmail _) = True"
| "is_email_call (SendNewsletterWelcome _) = True"
| "is_email_call _ = False"

fun is_header_call :: "event \<Rightarrow> bool" where
  "is_header_call (ApplySecurityHeaders _ _) = True"
| "is_header_call _ = False"

text \<open>All four kinds together.\<close>

definition submission_calls :: "event list \<Rightarrow> event list" where
  "submission_calls cs =
     filter (\<lambda>e. is_rate_limit_call e \<or> is_body_call e \<or> is_validation_call e \<or> is_email_call e) cs"

fun json_field :: "string \<Rightarrow> json \<Rightarrow> json option" where
  "json_field k (JObj props) = map_of props k"
| "json_field k _ = None"

definition body_field :: "string \<Rightarrow> response \<Rightarrow> json option" where
  "body_field k r = (case body r of None \<Rightarrow> None | Some j \<Rightarrow> json_field k j)"

definition header :: "string \<Rightarrow> response \<Rightarrow> string option" where
  "header k r = map_of (headers r) k"

text \<open>
  What \<^verbatim>\<open>applySecurityHeaders\<close> does to a response is not fixed by the handlers, which
  return whatever it hands back. The spec calls it the header-injection collaborator; a
  collaborator that only injects headers has the following property, under which the status
  a handler chose is the status the caller sees.
\<close>

definition keeps_status :: "'s env \<Rightarrow> bool" where
  "keeps_status env = (\<forall>r kind. status (applySecurityHeaders env r kind) = status r)"

section \<open>The rate limiter of the spec\<close>

text \<open>
  Modelled from the spec: \<^verbatim>\<open>checkRateLimit\<close> is imported from \<^verbatim>\<open>security.js\<close>, which is not
  among the sources. The spec (section 4.1) gives its contract: one record per client key,
  holding a request count and the window-reset timestamp; a window of fixed duration \<open>W\<close> and
  a quota \<open>Q\<close>. "If no record exists or the window has expired, start a new window with
  count=1, allowed=true, remaining=Q-1. Otherwise increment count; allowed = (count <= Q);
  remaining = max(0, Q - count)." The window has expired "once the current time passes the
  reset timestamp" (section 3), and "ties resolve toward incrementing" (section 4.1): a call
  at the reset time itself still counts in the window. A new window is reset \<open>W\<close> after the
  call that starts it. The clock is a parameter (\<open>now\<close>), as section 9 asks for.
\<close>

record rate_record =
  count :: int
  windowReset :: int

type_synonym rate_store = "string \<Rightarrow> rate_record option"

definition checkRateLimit_spec ::
  "int \<Rightarrow> int \<Rightarrow> int \<Rightarrow> string \<Rightarrow> rate_store \<Rightarrow> rate_limit \<times> rate_store" where
  "checkRateLimit_spec W Q now clientKey store =
    (let new_window =
           (\<lparr>allowed = True, remaining = Q - 1, resetTime = now + W\<rparr>,
            store(clientKey \<mapsto> \<lparr>count = 1, windowReset = now + W\<rparr>))
     in case store clientKey of
          None \<Rightarrow> new_window
        | Some r \<Rightarrow>
            if windowReset r < now then new_window
            else
              (let c = count r + 1
               in (\<lparr>allowed = (c \<le> Q), remaining = max 0 (Q - c), resetTime = windowReset r\<rparr>,
                   store(clientKey \<mapsto> r\<lparr>count := c\<rparr>))))"

text \<open>Successive calls for one key, at the given clock readings; the results in order.\<close>

fun check_all :: "int \<Rightarrow> int \<Rightarrow> string \<Rightarrow> int list \<Rightarrow> rate_store \<Rightarrow> rate_limit list" where
  "check_all W Q clientKey [] store = []"
| "check_all W Q clientKey (now # later) store =
     (let (r, store') = checkRateLimit_spec W Q now clientKey store
      in r # check_all W Q clientKey later store')"

section \<open>A concrete deployment\<close>

text \<open>
  Collaborators to run the handlers on: the origin guard accepts the site's own origin, the
  client key is the forwarded address, the limiter is the spec's with a window of 60 seconds
  and a quota of 5, read at time 1000; the body parser knows a few documents and throws on
  anything else; the validators want an \<open>email\<close> field and throw on a body that is not an
  object; the mail service refuses one address; the header injection adds one header.
\<close>

definition quoted :: "string \<Rightarrow> string" where
  "quoted s = CHR 0x22 # s @ [CHR 0x22]"

definition email_document :: "string \<Rightarrow> string" where
  "email_document a = ''{'' @ quoted ''email'' @ '':'' @ quoted a @ ''}''"

definition demo_json :: "request \<Rightarrow> thrown + json" where
  "demo_json rq =
     (if request_body rq = ''{}'' then Inr (JObj [])
      else if request_body rq = ''null'' then Inr JNull
      else if request_body rq = email_document ''a@b.com''
        then Inr (JObj [(''email'', JStr ''a@b.com'')])
      else if request_body rq = email_document ''bounce@b.com''
        then Inr (JObj [(''email'', JStr ''bounce@b.com'')])
      else Inl (ErrorObject ''Unexpected end of JSON input''))"

definition demo_validate :: "json \<Rightarrow> thrown + validation" where
  "demo_validate data =
     (case data of
        JObj props \<Rightarrow>
          (case map_of props ''email'' of
             Some (JStr a) \<Rightarrow> Inr \<lparr>valid = True, errors = [], sanitized = Some data\<rparr>
           | _ \<Rightarrow> Inr \<lparr>valid = False, errors = [''Email is required''], sanitized = None\<rparr>)
      | _ \<Rightarrow> Inl (ErrorObject ''Cannot read properties of null''))"

definition demo_send :: "json option \<Rightarrow> thrown + unit" where
  "demo_send form =
     (if form = Some (JObj [(''email'', JStr ''bounce@b.com'')])
      then Inl (OtherValue ''550 mailbox unavailable'')
      else Inr ())"

definition demo_headers :: "response \<Rightarrow> string \<Rightarrow> response" where
  "demo_headers r kind = r\<lparr>headers := headers r @ [(''X-Content-Type-Options'', ''nosniff'')]\<rparr>"

definition demo_env :: "(nat \<Rightarrow> int) \<Rightarrow> rate_store env" where
  "demo_env clock =
     \<lparr>validateOrigin = (\<lambda>rq. map_of (request_headers rq) ''origin'' = Some ''https://johnciresi.com''),
      getClientIP = (\<lambda>rq. case map_of (request_headers rq) ''x-forwarded-for'' of
                             Some a \<Rightarrow> a | None \<Rightarrow> ''unknown''),
      checkRateLimit = checkRateLimit_spec 60000 5 1000,
      request_json = demo_json,
      validateContactForm = demo_validate,
      validateNewsletterForm = demo_validate,
      sendContactEmail = demo_send,
      sendNewsletterWelcome = demo_send,
      applySecurityHeaders = demo_headers,
      Date_now = clock\<rparr>"

definition demo_request :: "string \<Rightarrow> string \<Rightarrow> request" where
  "demo_request origin text =
     \<lparr>request_method = ''POST'',
      request_headers = [(''origin'', origin), (''x-forwarded-for'', ''203.0.113.9'')],
      request_body = text\<rparr>"

text \<open>The limiter's state with one earlier request of the client, and with the quota used
  up, both in a window that is reset at time 61000.\<close>

definition one_request_made :: rate_store where
  "one_request_made = Map.empty(''203.0.113.9'' \<mapsto> \<lparr>count = 1, windowReset = 61000\<rparr>)"

definition quota_used :: rate_store where
  "quota_used = Map.empty(''203.0.113.9'' \<mapsto> \<lparr>count = 5, windowReset = 61000\<rparr>)"



section \<open>Facts about the numbers and the responses\<close>

text \<open>The integer model of \<^verbatim>\<open>Math.ceil(x / 1000)\<close> is the ceiling of the real quotient.\<close>

lemma Math_ceil_div1000_ceiling:
  "Math_ceil_div1000 x = \<lceil>real_of_int x / 1000\<rceil>"
proof -
  have "\<lceil>real_of_int x / real_of_int 1000\<rceil> = - ((- x) div 1000)"
    by (rule ceiling_divide_eq_div)
  then show ?thesis by (simp add: Math_ceil_div1000_def)
qed

lemma Math_ceil_div1000_nonpos: "x \<le> 0 \<Longrightarrow> Math_ceil_div1000 x \<le> 0"
  by (simp add: Math_ceil_div1000_def)

lemma toString_examples:
  "toString 60 = ''60''" "toString 0 = ''0''" "toString (- 2) = ''-2''"
  by (simp_all add: toString_def digits.simps)

text \<open>What \<open>toString\<close> prints is a decimal numeral that denotes the number: digits only
  after an optional minus sign, read back to the same number.\<close>

lemma digit_value_nth: "m < 10 \<Longrightarrow> digit_value (''0123456789'' ! m) = m"
proof -
  assume "m < 10"
  then have "m \<in> {0, 1, 2, 3, 4, 5, 6, 7, 8, 9}" by auto
  then show ?thesis by (auto simp: digit_value_def)
qed

lemma digit_not_minus: "m < 10 \<Longrightarrow> ''0123456789'' ! m \<noteq> CHR ''-''"
proof -
  assume "m < 10"
  then have "m \<in> {0, 1, 2, 3, 4, 5, 6, 7, 8, 9}" by auto
  then show ?thesis by auto
qed

lemma decimal_snoc: "decimal (cs @ [c]) = 10 * decimal cs + digit_value c"
  by (simp add: decimal_def)

lemma decimal_digits: "decimal (digits n) = n"
proof (induction n rule: digits.induct)
  case (1 n)
  show ?case
  proof (cases "n < 10")
    case True
    then show ?thesis
      by (subst digits.simps) (simp add: decimal_def digit_value_nth)
  next
    case False
    then have "decimal (digits (n div 10)) = n div 10" by (rule "1.IH")
    with False show ?thesis
      by (subst digits.simps) (simp add: decimal_snoc digit_value_nth)
  qed
qed

lemma digits_nonempty: "digits n \<noteq> []"
  by (subst digits.simps) simp

lemma hd_digits_not_minus: "hd (digits n) \<noteq> CHR ''-''"
proof (induction n rule: digits.induct)
  case (1 n)
  show ?case
  proof (cases "n < 10")
    case True
    then show ?thesis
      by (subst digits.simps) (simp add: digit_not_minus)
  next
    case False
    with "1.IH" show ?thesis
      by (subst digits.simps) (simp add: digits_nonempty)
  qed
qed

lemma digits_zero: "digits 0 = ''0''"
  by (subst digits.simps) simp

lemma Number_of_string_toString: "Number_of_string (toString i) = i"
proof (cases "i < 0")
  case True
  then show ?thesis
    by (simp add: toString_def Number_of_string_def decimal_digits)
next
  case False
  obtain c ds where d: "digits (nat i) = c # ds"
    using digits_nonempty [of "nat i"] by (cases "digits (nat i)") auto
  have "c \<noteq> CHR ''-''"
    using hd_digits_not_minus [of "nat i"] by (simp add: d)
  moreover have "decimal (c # ds) = nat i"
    using decimal_digits [of "nat i"] by (simp add: d)
  ultimately show ?thesis
    using False by (simp add: toString_def Number_of_string_def d)
qed

lemma toString_not_positive:
  "i \<le> 0 \<Longrightarrow> toString i = ''0'' \<or> (\<exists>ds. toString i = CHR ''-'' # ds)"
  by (cases "i = 0") (simp_all add: toString_def digits_zero)

lemma toString_inj: "toString i = toString j \<Longrightarrow> i = j"
  by (metis Number_of_string_toString)

lemma too_many_requests_fields:
  "status (too_many_requests env rateLimit) = 429"
  "body_field ''success'' (too_many_requests env rateLimit) = Some (JBool False)"
  "body_field ''retryAfter'' (too_many_requests env rateLimit) =
     Some (JNum (Math_ceil_div1000 (resetTime rateLimit - Date_now env 0)))"
  "header ''Retry-After'' (too_many_requests env rateLimit) =
     Some (toString (Math_ceil_div1000 (resetTime rateLimit - Date_now env 1)))"
  by (simp_all add: too_many_requests_def Response_def body_field_def header_def)

lemma validation_failed_fields:
  "status (validation_failed v) = 400"
  "body_field ''success'' (validation_failed v) = Some (JBool False)"
  "body_field ''details'' (validation_failed v) = Some (JArr (map JStr (errors v)))"
  by (simp_all add: validation_failed_def Response_def body_field_def)

lemma internal_server_error_fields:
  "status internal_server_error = 500"
  "body internal_server_error =
     Some (JObj [(''success'', JBool False),
                 (''error'', JStr ''Internal server error. Please try again later.'')])"
  by (simp_all add: internal_server_error_def Response_def)

lemma too_many_requests_header_value:
  "map_option Number_of_string (header ''Retry-After'' (too_many_requests env rateLimit)) =
     Some \<lceil>real_of_int (resetTime rateLimit - Date_now env 1) / 1000\<rceil>"
  by (simp add: too_many_requests_fields Number_of_string_toString Math_ceil_div1000_ceiling)

section \<open>Facts about the paths of the handlers\<close>

lemma contact_try_origin:
  "request_method request = ''POST'' \<Longrightarrow> \<not> validateOrigin env request \<Longrightarrow>
   contact_try env request s =
     (Inr (applySecurityHeaders env invalid_origin ''api''),
      [ValidateOrigin request, ApplySecurityHeaders invalid_origin ''api''], s)"
  by (simp add: contact_try_def)

lemma newsletter_try_origin:
  "request_method request = ''POST'' \<Longrightarrow> \<not> validateOrigin env request \<Longrightarrow>
   newsletter_try env request s =
     (Inr (applySecurityHeaders env invalid_origin ''api''),
      [ValidateOrigin request, ApplySecurityHeaders invalid_origin ''api''], s)"
  by (simp add: newsletter_try_def)

lemma contact_POST_limited:
  assumes "request_method request = ''POST''" and "validateOrigin env request"
    and "checkRateLimit env (getClientIP env request) s = (rateLimit, s')"
    and "\<not> allowed rateLimit"
  shows "contact_POST env request s =
           (too_many_requests env rateLimit,
            [ValidateOrigin request, GetClientIP request,
             CheckRateLimit (getClientIP env request)], s')"
  using assms by (simp add: contact_POST_def contact_try_def)

lemma newsletter_POST_limited:
  assumes "request_method request = ''POST''" and "validateOrigin env request"
    and "checkRateLimit env (getClientIP env request) s = (rateLimit, s')"
    and "\<not> allowed rateLimit"
  shows "newsletter_POST env request s =
           (too_many_requests env rateLimit,
            [ValidateOrigin request, GetClientIP request,
             CheckRateLimit (getClientIP env request)], s')"
  using assms by (simp add: newsletter_POST_def newsletter_try_def)

text \<open>The handlers with collaborators that throw: without faults they are the handlers
  above; a \<^verbatim>\<open>try\<close> block ends in a thrown value exactly when its last call throws it, and
  then no earlier call threw.\<close>

lemmas attempt_defs = and_then_def returns_def call_def call_validateOrigin_def
  call_getClientIP_def call_checkRateLimit_def call_applySecurityHeaders_def call_logError_def

lemma contact_POST_exn_no_faults:
  "contact_POST_exn no_faults env request s =
     (case contact_POST env request s of (response, cs, s') \<Rightarrow> (Inr response, cs, s'))"
  by (simp add: contact_POST_exn_def contact_try_exn_def contact_POST_def contact_try_def
      attempt_defs no_faults_def Let_def split: prod.splits sum.splits)

lemma newsletter_POST_exn_no_faults:
  "newsletter_POST_exn no_faults env request s =
     (case newsletter_POST env request s of (response, cs, s') \<Rightarrow> (Inr response, cs, s'))"
  by (simp add: newsletter_POST_exn_def newsletter_try_exn_def newsletter_POST_def
      newsletter_try_def attempt_defs no_faults_def Let_def split: prod.splits sum.splits)









section \<open>Facts about the rate limiter of the spec\<close>

lemma checkRateLimit_spec_new:
  assumes "store clientKey = None \<or> (\<exists>r. store clientKey = Some r \<and> windowReset r < now)"
  shows "checkRateLimit_spec W Q now clientKey store =
           (\<lparr>allowed = True, remaining = Q - 1, resetTime = now + W\<rparr>,
            store(clientKey \<mapsto> \<lparr>count = 1, windowReset = now + W\<rparr>))"
  using assms by (auto simp: checkRateLimit_spec_def Let_def)

lemma checkRateLimit_spec_same:
  assumes "store clientKey = Some r" and "now \<le> windowReset r"
  shows "checkRateLimit_spec W Q now clientKey store =
           (\<lparr>allowed = (count r + 1 \<le> Q), remaining = max 0 (Q - (count r + 1)),
             resetTime = windowReset r\<rparr>,
            store(clientKey \<mapsto> r\<lparr>count := count r + 1\<rparr>))"
  using assms by (simp add: checkRateLimit_spec_def Let_def)

text \<open>Calls that all fall into the current window of the key: the \<open>i\<close>-th of them sees the
  count raised by \<open>i\<close>.\<close>

lemma check_all_same_window:
  assumes "store clientKey = Some r" and "\<forall>t\<in>set ts. t \<le> windowReset r"
  shows "check_all W Q clientKey ts store =
           map (\<lambda>i. \<lparr>allowed = (count r + int i \<le> Q),
                      remaining = max 0 (Q - (count r + int i)),
                      resetTime = windowReset r\<rparr>)
               [1..<Suc (length ts)]"
  using assms
proof (induction ts arbitrary: store r)
  case Nil
  then show ?case by simp
next
  case (Cons t ts)
  let ?r' = "r\<lparr>count := count r + 1\<rparr>"
  let ?store' = "store(clientKey \<mapsto> ?r')"
  have step: "checkRateLimit_spec W Q t clientKey store =
           (\<lparr>allowed = (count r + 1 \<le> Q), remaining = max 0 (Q - (count r + 1)),
             resetTime = windowReset r\<rparr>, ?store')"
    using Cons.prems by (simp add: checkRateLimit_spec_same)
  have rest: "check_all W Q clientKey ts ?store' =
           map (\<lambda>i. \<lparr>allowed = (count ?r' + int i \<le> Q),
                      remaining = max 0 (Q - (count ?r' + int i)),
                      resetTime = windowReset ?r'\<rparr>)
               [1..<Suc (length ts)]"
    using Cons.prems by (intro Cons.IH) simp_all
  let ?f = "\<lambda>i. \<lparr>allowed = (count r + int i \<le> Q),
                   remaining = max 0 (Q - (count r + int i)),
                   resetTime = windowReset r\<rparr>"
  have shift: "[1..<Suc (length (t # ts))] = 1 # map Suc [1..<Suc (length ts)]"
    by (simp add: map_Suc_upt upt_conv_Cons del: upt_Suc)
  have "check_all W Q clientKey (t # ts) store =
          ?f 1 # check_all W Q clientKey ts ?store'"
    by (simp add: step)
  also have "check_all W Q clientKey ts ?store' = map (\<lambda>i. ?f (Suc i)) [1..<Suc (length ts)]"
    unfolding rest by (simp add: add.assoc del: upt_Suc)
  also have "?f 1 # map (\<lambda>i. ?f (Suc i)) [1..<Suc (length ts)] =
             map ?f (1 # map Suc [1..<Suc (length ts)])"
    by (simp add: comp_def del: upt_Suc)
  finally show ?case
    unfolding shift .
qed

text \<open>A call that starts a window, followed by \<open>Q\<close> calls no later than the time at which
  the window is reset.\<close>

lemma quota_exhausted_in_window:
  assumes Q: "0 < Q"
    and fresh: "store clientKey = None \<or> (\<exists>r. store clientKey = Some r \<and> windowReset r < t0)"
    and len: "length later = nat Q"
    and inside: "\<forall>t\<in>set later. t \<le> t0 + W"
  shows "length (check_all W Q clientKey (t0 # later) store) = nat Q + 1"
    and "list_all allowed (butlast (check_all W Q clientKey (t0 # later) store))"
    and "\<not> allowed (last (check_all W Q clientKey (t0 # later) store))"
    and "resetTime (last (check_all W Q clientKey (t0 # later) store)) = t0 + W"
    and "last later \<le> t0 + W"
proof -
  let ?r0 = "\<lparr>allowed = True, remaining = Q - 1, resetTime = t0 + W\<rparr>"
  let ?rec = "\<lparr>count = 1, windowReset = t0 + W\<rparr>"
  let ?store' = "store(clientKey \<mapsto> ?rec)"
  let ?f = "\<lambda>i. \<lparr>allowed = (1 + int i \<le> Q), remaining = max 0 (Q - (1 + int i)),
                   resetTime = t0 + W\<rparr>"
  let ?rs = "check_all W Q clientKey (t0 # later) store"
  have first: "checkRateLimit_spec W Q t0 clientKey store = (?r0, ?store')"
    using fresh by (rule checkRateLimit_spec_new)
  have "check_all W Q clientKey later ?store' =
          map (\<lambda>i. \<lparr>allowed = (count ?rec + int i \<le> Q),
                     remaining = max 0 (Q - (count ?rec + int i)),
                     resetTime = windowReset ?rec\<rparr>) [1..<Suc (length later)]"
    using inside by (intro check_all_same_window) auto
  then have rest: "check_all W Q clientKey later ?store' = map ?f [1..<Suc (nat Q)]"
    by (simp add: len del: upt_Suc)
  have rs: "?rs = ?r0 # map ?f [1..<Suc (nat Q)]"
    by (simp add: first rest del: upt_Suc)
  have pos: "0 < nat Q" using Q by simp
  then have split: "[1..<Suc (nat Q)] = [1..<nat Q] @ [nat Q]"
    by simp
  have last_rs: "last ?rs = ?f (nat Q)"
    unfolding rs split by simp
  have butlast_rs: "butlast ?rs = ?r0 # map ?f [1..<nat Q]"
    unfolding rs split by (simp add: butlast_append)
  show "length ?rs = nat Q + 1"
    unfolding rs by simp
  show "list_all allowed (butlast ?rs)"
    unfolding butlast_rs by (auto simp: list_all_iff)
  show "\<not> allowed (last ?rs)"
    unfolding last_rs using Q by simp
  show "resetTime (last ?rs) = t0 + W"
    unfolding last_rs by simp
  have "later \<noteq> []" using len pos by auto
  then have "last later \<in> set later" by simp
  then show "last later \<le> t0 + W"
    using inside by blast
qed

section \<open>Facts about the concrete deployment\<close>

lemma demo_env_simps:
  "validateOrigin (demo_env clock) rq =
     (map_of (request_headers rq) ''origin'' = Some ''https://johnciresi.com'')"
  "getClientIP (demo_env clock) rq =
     (case map_of (request_headers rq) ''x-forwarded-for'' of Some a \<Rightarrow> a | None \<Rightarrow> ''unknown'')"
  "checkRateLimit (demo_env clock) = checkRateLimit_spec 60000 5 1000"
  "request_json (demo_env clock) = demo_json"
  "validateContactForm (demo_env clock) = demo_validate"
  "validateNewsletterForm (demo_env clock) = demo_validate"
  "sendContactEmail (demo_env clock) = demo_send"
  "sendNewsletterWelcome (demo_env clock) = demo_send"
  "applySecurityHeaders (demo_env clock) = demo_headers"
  "Date_now (demo_env clock) = clock"
  by (simp_all add: demo_env_def)

lemma demo_request_simps:
  "request_method (demo_request origin text) = ''POST''"
  "request_headers (demo_request origin text) =
     [(''origin'', origin), (''x-forwarded-for'', ''203.0.113.9'')]"
  "request_body (demo_request origin text) = text"
  by (simp_all add: demo_request_def)

lemma demo_keeps_status: "keeps_status (demo_env clock)"
  by (simp add: keeps_status_def demo_env_def demo_headers_def)

lemma demo_origin_ok: "validateOrigin (demo_env clock) (demo_request ''https://johnciresi.com'' text)"
  by (simp add: demo_env_simps demo_request_simps)

lemma demo_limited:
  "checkRateLimit (demo_env clock)
     (getClientIP (demo_env clock) (demo_request origin text)) quota_used =
   (\<lparr>allowed = False, remaining = 0, resetTime = 61000\<rparr>,
    Map.empty(''203.0.113.9'' \<mapsto> \<lparr>count = 6, windowReset = 61000\<rparr>))"
  by (simp add: demo_env_simps demo_request_simps checkRateLimit_spec_def quota_used_def)

lemma demo_allowed:
  "checkRateLimit (demo_env clock)
     (getClientIP (demo_env clock) (demo_request origin text)) one_request_made =
   (\<lparr>allowed = True, remaining = 3, resetTime = 61000\<rparr>,
    Map.empty(''203.0.113.9'' \<mapsto> \<lparr>count = 2, windowReset = 61000\<rparr>))"
  by (simp add: demo_env_simps demo_request_simps checkRateLimit_spec_def one_request_made_def)

lemma demo_json_examples:
  "request_json (demo_env clock) (demo_request origin ''oops'') =
     Inl (ErrorObject ''Unexpected end of JSON input'')"
  "request_json (demo_env clock) (demo_request origin ''{}'') = Inr (JObj [])"
  "request_json (demo_env clock) (demo_request origin (email_document ''a@b.com'')) =
     Inr (JObj [(''email'', JStr ''a@b.com'')])"
  "request_json (demo_env clock) (demo_request origin (email_document ''bounce@b.com'')) =
     Inr (JObj [(''email'', JStr ''bounce@b.com'')])"
  by (simp_all add: demo_env_simps demo_json_def demo_request_simps email_document_def
      quoted_def)

lemma demo_validate_email:
  "demo_validate (JObj [(''email'', JStr a)]) =
     Inr \<lparr>valid = True, errors = [], sanitized = Some (JObj [(''email'', JStr a)])\<rparr>"
  by (simp add: demo_validate_def)



lemma no_faults_simps:
  "validateOrigin_throws no_faults = (\<lambda>_. None)"
  "getClientIP_throws no_faults = (\<lambda>_. None)"
  "checkRateLimit_throws no_faults = (\<lambda>_ _. None)"
  "applySecurityHeaders_throws no_faults = (\<lambda>_ _. None)"
  "logError_throws no_faults = (\<lambda>_ _ _. None)"
  by (simp_all add: no_faults_def)


lemma safe_integer_examples:
  "exact_delay 61000 1000" "exact_delay 61000 1001" "exact_delay 61000 63000"
  by (simp_all add: exact_delay_def safe_integer_def)

section \<open>The origin guard comes first\<close>

text \<open>
  Claim C1. A POST request whose origin \<^verbatim>\<open>validateOrigin\<close> rejects is answered by either
  endpoint with the 403 response "Invalid origin", handed to \<^verbatim>\<open>applySecurityHeaders\<close>; the
  calls of the run are the origin check and the header injection and nothing else, so the
  rate limiter, the body parser, the form validator and the email sender are not called,
  and the rate limiter's state is as it was. With a header injection that keeps the status,
  the caller sees 403.
\<close>

theorem origin_rejected_first:
  assumes "request_method request = ''POST''" and "\<not> validateOrigin env request"
  shows "contact_POST env request s =
           (applySecurityHeaders env invalid_origin ''api'',
            [ValidateOrigin request, ApplySecurityHeaders invalid_origin ''api''], s)
       \<and> newsletter_POST env request s =
           (applySecurityHeaders env invalid_origin ''api'',
            [ValidateOrigin request, ApplySecurityHeaders invalid_origin ''api''], s)
       \<and> status invalid_origin = 403
       \<and> (keeps_status env \<longrightarrow>
            status (returned (contact_POST env request s)) = 403
          \<and> status (returned (newsletter_POST env request s)) = 403)
       \<and> submission_calls (calls (contact_POST env request s)) = []
       \<and> submission_calls (calls (newsletter_POST env request s)) = []
       \<and> limiter_state (contact_POST env request s) = s
       \<and> limiter_state (newsletter_POST env request s) = s"
proof -
  have c: "contact_POST env request s =
           (applySecurityHeaders env invalid_origin ''api'',
            [ValidateOrigin request, ApplySecurityHeaders invalid_origin ''api''], s)"
    using assms by (simp add: contact_POST_def contact_try_origin)
  have n: "newsletter_POST env request s =
           (applySecurityHeaders env invalid_origin ''api'',
            [ValidateOrigin request, ApplySecurityHeaders invalid_origin ''api''], s)"
    using assms by (simp add: newsletter_POST_def newsletter_try_origin)
  have st: "status invalid_origin = 403"
    by (simp add: invalid_origin_def Response_def)
  show ?thesis
    unfolding c n
    by (simp add: st keeps_status_def returned_def calls_def limiter_state_def
        submission_calls_def)
qed

text \<open>The theorem at a request from a foreign origin, sent by a client that has used up
  its quota: no rate-limit answer, only the 403.\<close>

theorem origin_rejected_first_witness:
  "request_method (demo_request ''https://evil.example'' ''{}'') = ''POST''
   \<and> \<not> validateOrigin (demo_env (\<lambda>k. 1000)) (demo_request ''https://evil.example'' ''{}'')
   \<and> status (returned (contact_POST (demo_env (\<lambda>k. 1000))
               (demo_request ''https://evil.example'' ''{}'') quota_used)) = 403
   \<and> status (returned (newsletter_POST (demo_env (\<lambda>k. 1000))
               (demo_request ''https://evil.example'' ''{}'') quota_used)) = 403
   \<and> calls (contact_POST (demo_env (\<lambda>k. 1000))
               (demo_request ''https://evil.example'' ''{}'') quota_used) =
       [ValidateOrigin (demo_request ''https://evil.example'' ''{}''),
        ApplySecurityHeaders invalid_origin ''api'']
   \<and> limiter_state (contact_POST (demo_env (\<lambda>k. 1000))
               (demo_request ''https://evil.example'' ''{}'') quota_used) = quota_used"
proof -
  have m: "request_method (demo_request ''https://evil.example'' ''{}'') = ''POST''"
    by (simp add: demo_request_def)
  have o: "\<not> validateOrigin (demo_env (\<lambda>k. 1000)) (demo_request ''https://evil.example'' ''{}'')"
    by (simp add: demo_env_simps demo_request_simps)
  note t = origin_rejected_first [OF m o, of quota_used]
  note c = t [THEN conjunct1]
  note n = t [THEN conjunct2, THEN conjunct1]
  show ?thesis
    by (simp add: c n returned_def calls_def limiter_state_def demo_env_simps demo_request_simps
        demo_headers_def invalid_origin_def Response_def)
qed

section \<open>The contract of the rate limiter\<close>

text \<open>
  Claim C2, as the rate limiter of the spec has it. For a non-empty client key,
  \<^verbatim>\<open>checkRateLimit\<close> starts a new window with count 1, \<open>allowed = True\<close> and
  \<open>remaining = Q - 1\<close> when the key has no record or its window has expired; otherwise it
  increments the count and answers \<open>allowed = (count \<le> Q)\<close> and
  \<open>remaining = max 0 (Q - count)\<close>. Consequently, for a quota \<open>Q \<ge> 1\<close>: of \<open>Q + 1\<close> calls, the
  first of which starts a window and the others come no later than the time at which that
  window is reset, the first \<open>Q\<close> are allowed and the last is rejected; its reset time is that
  of the window, which lies after the time of the call unless the call comes exactly at the
  reset time.
\<close>

theorem checkRateLimit_spec_contract:
  assumes "clientKey \<noteq> []"
  shows "((store clientKey = None \<or> (\<exists>r. store clientKey = Some r \<and> windowReset r < now)) \<longrightarrow>
           checkRateLimit_spec W Q now clientKey store =
             (\<lparr>allowed = True, remaining = Q - 1, resetTime = now + W\<rparr>,
              store(clientKey \<mapsto> \<lparr>count = 1, windowReset = now + W\<rparr>)))
       \<and> (\<forall>r. store clientKey = Some r \<and> now \<le> windowReset r \<longrightarrow>
           checkRateLimit_spec W Q now clientKey store =
             (\<lparr>allowed = (count r + 1 \<le> Q), remaining = max 0 (Q - (count r + 1)),
               resetTime = windowReset r\<rparr>,
              store(clientKey \<mapsto> r\<lparr>count := count r + 1\<rparr>)))
       \<and> (0 < Q
            \<and> (store clientKey = None \<or> (\<exists>r. store clientKey = Some r \<and> windowReset r < now))
            \<and> length later = nat Q \<and> (\<forall>t\<in>set later. t \<le> now + W) \<longrightarrow>
           length (check_all W Q clientKey (now # later) store) = nat Q + 1
         \<and> list_all allowed (butlast (check_all W Q clientKey (now # later) store))
         \<and> \<not> allowed (last (check_all W Q clientKey (now # later) store))
         \<and> resetTime (last (check_all W Q clientKey (now # later) store)) = now + W
         \<and> last later \<le> resetTime (last (check_all W Q clientKey (now # later) store))
         \<and> (last later < resetTime (last (check_all W Q clientKey (now # later) store)))
             = (last later \<noteq> now + W))"
proof (intro conjI impI allI)
  assume "store clientKey = None \<or> (\<exists>r. store clientKey = Some r \<and> windowReset r < now)"
  then show "checkRateLimit_spec W Q now clientKey store =
             (\<lparr>allowed = True, remaining = Q - 1, resetTime = now + W\<rparr>,
              store(clientKey \<mapsto> \<lparr>count = 1, windowReset = now + W\<rparr>))"
    by (rule checkRateLimit_spec_new)
next
  fix r
  assume "store clientKey = Some r \<and> now \<le> windowReset r"
  then show "checkRateLimit_spec W Q now clientKey store =
             (\<lparr>allowed = (count r + 1 \<le> Q), remaining = max 0 (Q - (count r + 1)),
               resetTime = windowReset r\<rparr>,
              store(clientKey \<mapsto> r\<lparr>count := count r + 1\<rparr>))"
    by (simp add: checkRateLimit_spec_same)
next
  assume h: "0 < Q
            \<and> (store clientKey = None \<or> (\<exists>r. store clientKey = Some r \<and> windowReset r < now))
            \<and> length later = nat Q \<and> (\<forall>t\<in>set later. t \<le> now + W)"
  then show "length (check_all W Q clientKey (now # later) store) = nat Q + 1"
    by (intro quota_exhausted_in_window(1)) simp_all
  from h show "list_all allowed (butlast (check_all W Q clientKey (now # later) store))"
    by (intro quota_exhausted_in_window(2)) simp_all
  from h show "\<not> allowed (last (check_all W Q clientKey (now # later) store))"
    by (intro quota_exhausted_in_window(3)) simp_all
  from h have r: "resetTime (last (check_all W Q clientKey (now # later) store)) = now + W"
    by (intro quota_exhausted_in_window(4)) simp_all
  from h have l: "last later \<le> now + W"
    by (intro quota_exhausted_in_window(5) [of Q store clientKey now later W]) simp_all
  show "resetTime (last (check_all W Q clientKey (now # later) store)) = now + W"
    by (rule r)
  show "last later \<le> resetTime (last (check_all W Q clientKey (now # later) store))"
    using r l by simp
  show "(last later < resetTime (last (check_all W Q clientKey (now # later) store)))
             = (last later \<noteq> now + W)"
    using r l by auto
qed

text \<open>Claim C2 as stated promises a reset time in the future for every \<open>(Q + 1)\<close>-th call
  within one window. With a quota of 1, a second call exactly at the reset time is still
  counted in the window and rejected, with a reset time equal to the time of the call; and
  with a quota of 0 the first call, which is the \<open>(Q + 1)\<close>-th, is allowed.\<close>

theorem rejected_at_reset_time:
  "check_all 60000 1 ''203.0.113.9'' [1000, 61000] Map.empty =
     [\<lparr>allowed = True, remaining = 0, resetTime = 61000\<rparr>,
      \<lparr>allowed = False, remaining = 0, resetTime = 61000\<rparr>]
   \<and> \<not> (61000 < resetTime (last (check_all 60000 1 ''203.0.113.9'' [1000, 61000] Map.empty)))
   \<and> check_all 60000 0 ''203.0.113.9'' [1000] Map.empty =
     [\<lparr>allowed = True, remaining = - 1, resetTime = 61000\<rparr>]"
  by (simp add: checkRateLimit_spec_def)

text \<open>The theorem at a quota of 5 and a window of 60 seconds: a fresh key, a key inside its
  window, a key at its quota, and six calls one second apart.\<close>

theorem checkRateLimit_spec_contract_witness:
  "''203.0.113.9'' \<noteq> []
   \<and> checkRateLimit_spec 60000 5 1000 ''203.0.113.9'' Map.empty =
       (\<lparr>allowed = True, remaining = 4, resetTime = 61000\<rparr>,
        Map.empty(''203.0.113.9'' \<mapsto> \<lparr>count = 1, windowReset = 61000\<rparr>))
   \<and> fst (checkRateLimit_spec 60000 5 2000 ''203.0.113.9'' one_request_made) =
       \<lparr>allowed = True, remaining = 3, resetTime = 61000\<rparr>
   \<and> fst (checkRateLimit_spec 60000 5 2000 ''203.0.113.9'' quota_used) =
       \<lparr>allowed = False, remaining = 0, resetTime = 61000\<rparr>
   \<and> check_all 60000 5 ''203.0.113.9'' [1000, 2000, 3000, 4000, 5000, 6000] Map.empty =
       [\<lparr>allowed = True, remaining = 4, resetTime = 61000\<rparr>,
        \<lparr>allowed = True, remaining = 3, resetTime = 61000\<rparr>,
        \<lparr>allowed = True, remaining = 2, resetTime = 61000\<rparr>,
        \<lparr>allowed = True, remaining = 1, resetTime = 61000\<rparr>,
        \<lparr>allowed = True, remaining = 0, resetTime = 61000\<rparr>,
        \<lparr>allowed = False, remaining = 0, resetTime = 61000\<rparr>]
   \<and> \<not> allowed (last (check_all 60000 5 ''203.0.113.9''
                          [1000, 2000, 3000, 4000, 5000, 6000] Map.empty))
   \<and> (6000::int) < resetTime (last (check_all 60000 5 ''203.0.113.9''
                          [1000, 2000, 3000, 4000, 5000, 6000] Map.empty))"
proof -
  have k: "''203.0.113.9'' \<noteq> []" by simp
  note t = checkRateLimit_spec_contract [OF k, of Map.empty 1000 60000 5 "[2000, 3000, 4000, 5000, 6000]"]
  have new: "checkRateLimit_spec 60000 5 1000 ''203.0.113.9'' Map.empty =
       (\<lparr>allowed = True, remaining = 4, resetTime = 61000\<rparr>,
        Map.empty(''203.0.113.9'' \<mapsto> \<lparr>count = 1, windowReset = 61000\<rparr>))"
    using t [THEN conjunct1] by simp
  have last: "\<not> allowed (last (check_all 60000 5 ''203.0.113.9''
                          [1000, 2000, 3000, 4000, 5000, 6000] Map.empty))
     \<and> (6000::int) < resetTime (last (check_all 60000 5 ''203.0.113.9''
                          [1000, 2000, 3000, 4000, 5000, 6000] Map.empty))"
    using t [THEN conjunct2, THEN conjunct2] by simp
  have all: "check_all 60000 5 ''203.0.113.9'' [1000, 2000, 3000, 4000, 5000, 6000] Map.empty =
       [\<lparr>allowed = True, remaining = 4, resetTime = 61000\<rparr>,
        \<lparr>allowed = True, remaining = 3, resetTime = 61000\<rparr>,
        \<lparr>allowed = True, remaining = 2, resetTime = 61000\<rparr>,
        \<lparr>allowed = True, remaining = 1, resetTime = 61000\<rparr>,
        \<lparr>allowed = True, remaining = 0, resetTime = 61000\<rparr>,
        \<lparr>allowed = False, remaining = 0, resetTime = 61000\<rparr>]"
    by (simp add: checkRateLimit_spec_def)
  have same: "fst (checkRateLimit_spec 60000 5 2000 ''203.0.113.9'' one_request_made) =
       \<lparr>allowed = True, remaining = 3, resetTime = 61000\<rparr>"
    using checkRateLimit_spec_contract [OF k, of one_request_made 2000 60000 5 "[]",
        THEN conjunct2, THEN conjunct1]
    by (simp add: one_request_made_def)
  have full: "fst (checkRateLimit_spec 60000 5 2000 ''203.0.113.9'' quota_used) =
       \<lparr>allowed = False, remaining = 0, resetTime = 61000\<rparr>"
    by (simp add: checkRateLimit_spec_def quota_used_def)
  show ?thesis
    using k new same full all last by simp
qed

section \<open>Security headers on the contact endpoint\<close>

text \<open>
  Claim C3. Every response of the contact endpoint's POST handler is passed through
  \<^verbatim>\<open>applySecurityHeaders\<close>. The 405, 403, 200 and 500 paths do that; the 429 and the 400
  path return their \<^verbatim>\<open>Response\<close> as built. Evaluated here: a client over its quota gets the 429
  with the headers \<^verbatim>\<open>Content-Type\<close> and \<^verbatim>\<open>Retry-After\<close> only and no call of the header
  injection, an invalid form gets the 400 with \<^verbatim>\<open>Content-Type\<close> only, while the 403 of the same
  handler carries the injected header.
\<close>

theorem contact_429_and_400_skip_security_headers:
  "calls (contact_POST (demo_env (\<lambda>k. 1000))
      (demo_request ''https://johnciresi.com'' ''{}'') quota_used) =
     [ValidateOrigin (demo_request ''https://johnciresi.com'' ''{}''),
      GetClientIP (demo_request ''https://johnciresi.com'' ''{}''),
      CheckRateLimit ''203.0.113.9'']
   \<and> status (returned (contact_POST (demo_env (\<lambda>k. 1000))
      (demo_request ''https://johnciresi.com'' ''{}'') quota_used)) = 429
   \<and> headers (returned (contact_POST (demo_env (\<lambda>k. 1000))
      (demo_request ''https://johnciresi.com'' ''{}'') quota_used)) =
     [(''Content-Type'', ''application/json''), (''Retry-After'', ''60'')]
   \<and> calls (contact_POST (demo_env (\<lambda>k. 1000))
      (demo_request ''https://johnciresi.com'' ''{}'') one_request_made) =
     [ValidateOrigin (demo_request ''https://johnciresi.com'' ''{}''),
      GetClientIP (demo_request ''https://johnciresi.com'' ''{}''),
      CheckRateLimit ''203.0.113.9'',
      RequestJson (demo_request ''https://johnciresi.com'' ''{}''),
      ValidateContactForm (JObj [])]
   \<and> status (returned (contact_POST (demo_env (\<lambda>k. 1000))
      (demo_request ''https://johnciresi.com'' ''{}'') one_request_made)) = 400
   \<and> headers (returned (contact_POST (demo_env (\<lambda>k. 1000))
      (demo_request ''https://johnciresi.com'' ''{}'') one_request_made)) =
     [(''Content-Type'', ''application/json'')]
   \<and> headers (returned (contact_POST (demo_env (\<lambda>k. 1000))
      (demo_request ''https://evil.example'' ''{}'') one_request_made)) =
     [(''Content-Type'', ''application/json''), (''X-Content-Type-Options'', ''nosniff'')]"
proof -
  let ?env = "demo_env (\<lambda>k. 1000)"
  let ?rq = "demo_request ''https://johnciresi.com'' ''{}''"
  let ?bad = "demo_request ''https://evil.example'' ''{}''"
  have ip: "getClientIP ?env ?rq = ''203.0.113.9''"
    by (simp add: demo_env_simps demo_request_simps)
  have lim: "checkRateLimit ?env ''203.0.113.9'' quota_used =
      (\<lparr>allowed = False, remaining = 0, resetTime = 61000\<rparr>,
       Map.empty(''203.0.113.9'' \<mapsto> \<lparr>count = 6, windowReset = 61000\<rparr>))"
    using demo_limited [of "\<lambda>k. 1000" "''https://johnciresi.com''" "''{}''"] by (simp only: ip)
  have alw: "checkRateLimit ?env ''203.0.113.9'' one_request_made =
      (\<lparr>allowed = True, remaining = 3, resetTime = 61000\<rparr>,
       Map.empty(''203.0.113.9'' \<mapsto> \<lparr>count = 2, windowReset = 61000\<rparr>))"
    using demo_allowed [of "\<lambda>k. 1000" "''https://johnciresi.com''" "''{}''"] by (simp only: ip)
  have limited: "contact_POST ?env ?rq quota_used =
      (too_many_requests ?env \<lparr>allowed = False, remaining = 0, resetTime = 61000\<rparr>,
       [ValidateOrigin ?rq, GetClientIP ?rq, CheckRateLimit ''203.0.113.9''],
       Map.empty(''203.0.113.9'' \<mapsto> \<lparr>count = 6, windowReset = 61000\<rparr>))"
    using demo_origin_ok [of "\<lambda>k. 1000" "''{}''"]
    by (simp add: contact_POST_def contact_try_def demo_request_simps(1) lim ip Let_def)
  have invalid: "contact_POST ?env ?rq one_request_made =
      (validation_failed \<lparr>valid = False, errors = [''Email is required''], sanitized = None\<rparr>,
       [ValidateOrigin ?rq, GetClientIP ?rq, CheckRateLimit ''203.0.113.9'',
        RequestJson ?rq, ValidateContactForm (JObj [])],
       Map.empty(''203.0.113.9'' \<mapsto> \<lparr>count = 2, windowReset = 61000\<rparr>))"
    using demo_origin_ok [of "\<lambda>k. 1000" "''{}''"]
    by (simp add: contact_POST_def contact_try_def demo_request_simps(1) alw
        demo_json_examples demo_env_simps(5) demo_validate_def ip Let_def)
  have bad: "contact_POST ?env ?bad one_request_made =
      (demo_headers invalid_origin ''api'',
       [ValidateOrigin ?bad, ApplySecurityHeaders invalid_origin ''api''], one_request_made)"
    by (simp add: contact_POST_def contact_try_def demo_request_simps demo_env_simps)
  show ?thesis
    unfolding limited invalid bad
    by (simp add: calls_def returned_def too_many_requests_def validation_failed_def
        invalid_origin_def content_type_json_def Response_def demo_headers_def
        demo_env_simps Math_ceil_div1000_def toString_examples)
qed

section \<open>Security headers on the newsletter endpoint\<close>

text \<open>
  Claim C4, as the code has it. The newsletter POST handler returns its 429, 400, 200 and
  500 responses without a call of \<^verbatim>\<open>applySecurityHeaders\<close>; its 405 and 403 responses are
  passed through \<^verbatim>\<open>applySecurityHeaders\<close>. The newsletter OPTIONS handler returns its static
  \<^verbatim>\<open>Access-Control-Allow-*\<close> headers and calls nothing.
\<close>

theorem newsletter_security_headers:
  "(request_method request \<noteq> ''POST'' \<longrightarrow>
      newsletter_POST env request s =
        (applySecurityHeaders env method_not_allowed ''api'',
         [ApplySecurityHeaders method_not_allowed ''api''], s))
   \<and> (request_method request = ''POST'' \<and> \<not> validateOrigin env request \<longrightarrow>
      newsletter_POST env request s =
        (applySecurityHeaders env invalid_origin ''api'',
         [ValidateOrigin request, ApplySecurityHeaders invalid_origin ''api''], s))
   \<and> (request_method request = ''POST'' \<and> validateOrigin env request \<longrightarrow>
      filter is_header_call (calls (newsletter_POST env request s)) = []
      \<and> status (returned (newsletter_POST env request s)) \<in> {429, 400, 200, 500})
   \<and> status method_not_allowed = 405
   \<and> status invalid_origin = 403
   \<and> newsletter_OPTIONS env request s = (newsletter_preflight, [], s)
   \<and> map fst (headers newsletter_preflight) =
       [''Access-Control-Allow-Origin'', ''Access-Control-Allow-Methods'',
        ''Access-Control-Allow-Headers'']"
proof -
  obtain rateLimit s' where rl: "checkRateLimit env (getClientIP env request) s = (rateLimit, s')"
    by (cases "checkRateLimit env (getClientIP env request) s")
  have a: "request_method request \<noteq> ''POST'' \<Longrightarrow>
      newsletter_POST env request s =
        (applySecurityHeaders env method_not_allowed ''api'',
         [ApplySecurityHeaders method_not_allowed ''api''], s)"
    by (simp add: newsletter_POST_def newsletter_try_def)
  have b: "request_method request = ''POST'' \<and> \<not> validateOrigin env request \<Longrightarrow>
      newsletter_POST env request s =
        (applySecurityHeaders env invalid_origin ''api'',
         [ValidateOrigin request, ApplySecurityHeaders invalid_origin ''api''], s)"
    by (simp add: newsletter_POST_def newsletter_try_def)
  have c: "request_method request = ''POST'' \<and> validateOrigin env request \<Longrightarrow>
      filter is_header_call (calls (newsletter_POST env request s)) = []
      \<and> status (returned (newsletter_POST env request s)) \<in> {429, 400, 200, 500}"
    using rl
    by (simp add: newsletter_POST_def newsletter_try_def calls_def returned_def
        too_many_requests_fields validation_failed_fields internal_server_error_fields
        newsletter_subscribed_def Response_def Let_def split: sum.splits)
  have d: "status method_not_allowed = 405" "status invalid_origin = 403"
    by (simp_all add: method_not_allowed_def invalid_origin_def Response_def)
  have e: "newsletter_OPTIONS env request s = (newsletter_preflight, [], s)"
    by (simp add: newsletter_OPTIONS_def)
  have f: "map fst (headers newsletter_preflight) =
       [''Access-Control-Allow-Origin'', ''Access-Control-Allow-Methods'',
        ''Access-Control-Allow-Headers'']"
    by (simp add: newsletter_preflight_def Response_def)
  show ?thesis
    using a b c d e f by blast
qed

text \<open>Claim C4 as stated says that the 403 path makes no call of \<^verbatim>\<open>applySecurityHeaders\<close>.
  A newsletter request from a foreign origin: the handler calls it, and the response carries
  the injected header.\<close>

theorem newsletter_403_applies_security_headers:
  "calls (newsletter_POST (demo_env (\<lambda>k. 1000))
      (demo_request ''https://evil.example'' ''{}'') one_request_made) =
     [ValidateOrigin (demo_request ''https://evil.example'' ''{}''),
      ApplySecurityHeaders invalid_origin ''api'']
   \<and> filter is_header_call (calls (newsletter_POST (demo_env (\<lambda>k. 1000))
      (demo_request ''https://evil.example'' ''{}'') one_request_made)) \<noteq> []
   \<and> status (returned (newsletter_POST (demo_env (\<lambda>k. 1000))
      (demo_request ''https://evil.example'' ''{}'') one_request_made)) = 403
   \<and> headers (returned (newsletter_POST (demo_env (\<lambda>k. 1000))
      (demo_request ''https://evil.example'' ''{}'') one_request_made)) =
     [(''Content-Type'', ''application/json''), (''X-Content-Type-Options'', ''nosniff'')]"
proof -
  let ?env = "demo_env (\<lambda>k. 1000)"
  let ?bad = "demo_request ''https://evil.example'' ''{}''"
  have bad: "newsletter_POST ?env ?bad one_request_made =
      (demo_headers invalid_origin ''api'',
       [ValidateOrigin ?bad, ApplySecurityHeaders invalid_origin ''api''], one_request_made)"
    by (simp add: newsletter_POST_def newsletter_try_def demo_request_simps demo_env_simps)
  show ?thesis
    unfolding bad
    by (simp add: calls_def returned_def invalid_origin_def content_type_json_def
        Response_def demo_headers_def)
qed

text \<open>The theorem at a well-formed subscription under quota: status 200, no call of the
  header injection, no injected header.\<close>

theorem newsletter_security_headers_witness:
  "request_method (demo_request ''https://johnciresi.com'' (email_document ''a@b.com'')) = ''POST''
   \<and> validateOrigin (demo_env (\<lambda>k. 1000))
         (demo_request ''https://johnciresi.com'' (email_document ''a@b.com''))
   \<and> filter is_header_call (calls (newsletter_POST (demo_env (\<lambda>k. 1000))
         (demo_request ''https://johnciresi.com'' (email_document ''a@b.com''))
         one_request_made)) = []
   \<and> status (returned (newsletter_POST (demo_env (\<lambda>k. 1000))
         (demo_request ''https://johnciresi.com'' (email_document ''a@b.com''))
         one_request_made)) = 200
   \<and> headers (returned (newsletter_POST (demo_env (\<lambda>k. 1000))
         (demo_request ''https://johnciresi.com'' (email_document ''a@b.com''))
         one_request_made)) = [(''Content-Type'', ''application/json'')]
   \<and> body_field ''remaining'' (returned (newsletter_POST (demo_env (\<lambda>k. 1000))
         (demo_request ''https://johnciresi.com'' (email_document ''a@b.com''))
         one_request_made)) = Some (JNum 3)"
proof -
  let ?env = "demo_env (\<lambda>k. 1000)"
  let ?rq = "demo_request ''https://johnciresi.com'' (email_document ''a@b.com'')"
  have m: "request_method ?rq = ''POST''" by (simp add: demo_request_simps)
  have o: "validateOrigin ?env ?rq" by (rule demo_origin_ok)
  have h: "filter is_header_call (calls (newsletter_POST ?env ?rq one_request_made)) = []"
    using newsletter_security_headers [of ?rq ?env one_request_made] m o by blast
  have r: "returned (newsletter_POST ?env ?rq one_request_made) =
             newsletter_subscribed \<lparr>allowed = True, remaining = 3, resetTime = 61000\<rparr>"
    using m o
    by (simp add: newsletter_POST_def newsletter_try_def demo_allowed demo_json_examples
        demo_env_simps(6,8) demo_validate_email demo_send_def returned_def)
  show ?thesis
    unfolding r using m o h
    by (simp add: newsletter_subscribed_def content_type_json_def Response_def body_field_def)
qed

section \<open>An invalid form sends no email\<close>

text \<open>
  Claim C5. A POST request that passes the origin guard and the rate limiter, whose body
  parses and whose form the validator finds invalid, is answered with status 400 and a body
  with \<open>success = false\<close> and the validator's error messages as \<open>details\<close>; the run ends with the
  call of the validator, and the email sender is not called. This holds for the contact and
  for the newsletter endpoint.
\<close>

theorem invalid_form_sends_nothing:
  assumes "request_method request = ''POST''" and "validateOrigin env request"
    and "checkRateLimit env (getClientIP env request) s = (rateLimit, s')"
    and "allowed rateLimit"
    and "request_json env request = Inr data"
  shows "(\<forall>v. validateContactForm env data = Inr v \<and> \<not> valid v \<longrightarrow>
            contact_POST env request s =
              (validation_failed v,
               [ValidateOrigin request, GetClientIP request,
                CheckRateLimit (getClientIP env request), RequestJson request,
                ValidateContactForm data], s')
          \<and> filter is_email_call (calls (contact_POST env request s)) = [])
       \<and> (\<forall>v. validateNewsletterForm env data = Inr v \<and> \<not> valid v \<longrightarrow>
            newsletter_POST env request s =
              (validation_failed v,
               [ValidateOrigin request, GetClientIP request,
                CheckRateLimit (getClientIP env request), RequestJson request,
                ValidateNewsletterForm data], s')
          \<and> filter is_email_call (calls (newsletter_POST env request s)) = [])
       \<and> (\<forall>v. status (validation_failed v) = 400
              \<and> body_field ''success'' (validation_failed v) = Some (JBool False)
              \<and> body_field ''details'' (validation_failed v) = Some (JArr (map JStr (errors v))))"
  using assms
  by (simp add: contact_POST_def contact_try_def newsletter_POST_def newsletter_try_def
      calls_def validation_failed_fields)

text \<open>The theorem at the body \<^verbatim>\<open>{}\<close>, which lacks the email field.\<close>

theorem invalid_form_sends_nothing_witness:
  "request_method (demo_request ''https://johnciresi.com'' ''{}'') = ''POST''
   \<and> validateOrigin (demo_env (\<lambda>k. 1000)) (demo_request ''https://johnciresi.com'' ''{}'')
   \<and> allowed (fst (checkRateLimit (demo_env (\<lambda>k. 1000))
          (getClientIP (demo_env (\<lambda>k. 1000)) (demo_request ''https://johnciresi.com'' ''{}''))
          one_request_made))
   \<and> request_json (demo_env (\<lambda>k. 1000)) (demo_request ''https://johnciresi.com'' ''{}'') =
       Inr (JObj [])
   \<and> validateContactForm (demo_env (\<lambda>k. 1000)) (JObj []) =
       Inr \<lparr>valid = False, errors = [''Email is required''], sanitized = None\<rparr>
   \<and> validateNewsletterForm (demo_env (\<lambda>k. 1000)) (JObj []) =
       Inr \<lparr>valid = False, errors = [''Email is required''], sanitized = None\<rparr>
   \<and> status (returned (contact_POST (demo_env (\<lambda>k. 1000))
         (demo_request ''https://johnciresi.com'' ''{}'') one_request_made)) = 400
   \<and> body_field ''details'' (returned (contact_POST (demo_env (\<lambda>k. 1000))
         (demo_request ''https://johnciresi.com'' ''{}'') one_request_made)) =
       Some (JArr [JStr ''Email is required''])
   \<and> filter is_email_call (calls (contact_POST (demo_env (\<lambda>k. 1000))
         (demo_request ''https://johnciresi.com'' ''{}'') one_request_made)) = []
   \<and> status (returned (newsletter_POST (demo_env (\<lambda>k. 1000))
         (demo_request ''https://johnciresi.com'' ''{}'') one_request_made)) = 400
   \<and> filter is_email_call (calls (newsletter_POST (demo_env (\<lambda>k. 1000))
         (demo_request ''https://johnciresi.com'' ''{}'') one_request_made)) = []"
proof -
  let ?env = "demo_env (\<lambda>k. 1000)"
  let ?rq = "demo_request ''https://johnciresi.com'' ''{}''"
  let ?v = "\<lparr>valid = False, errors = [''Email is required''], sanitized = None\<rparr>"
  have m: "request_method ?rq = ''POST''" by (simp add: demo_request_simps)
  have o: "validateOrigin ?env ?rq" by (rule demo_origin_ok)
  have a: "allowed \<lparr>allowed = True, remaining = 3, resetTime = 61000\<rparr>" by simp
  have j: "request_json ?env ?rq = Inr (JObj [])"
    by (simp add: demo_env_simps demo_json_def demo_request_simps)
  have vc: "validateContactForm ?env (JObj []) = Inr ?v"
    by (simp add: demo_env_simps demo_validate_def)
  have vn: "validateNewsletterForm ?env (JObj []) = Inr ?v"
    by (simp add: demo_env_simps demo_validate_def)
  note t = invalid_form_sends_nothing [OF m o demo_allowed a j]
  have c: "contact_POST ?env ?rq one_request_made =
      (validation_failed ?v,
       [ValidateOrigin ?rq, GetClientIP ?rq, CheckRateLimit (getClientIP ?env ?rq),
        RequestJson ?rq, ValidateContactForm (JObj [])],
       Map.empty(''203.0.113.9'' \<mapsto> \<lparr>count = 2, windowReset = 61000\<rparr>))"
    using t [THEN conjunct1, rule_format, of ?v] vc by simp
  have n: "newsletter_POST ?env ?rq one_request_made =
      (validation_failed ?v,
       [ValidateOrigin ?rq, GetClientIP ?rq, CheckRateLimit (getClientIP ?env ?rq),
        RequestJson ?rq, ValidateNewsletterForm (JObj [])],
       Map.empty(''203.0.113.9'' \<mapsto> \<lparr>count = 2, windowReset = 61000\<rparr>))"
    using t [THEN conjunct2, THEN conjunct1, rule_format, of ?v] vn by simp
  have l: "allowed (fst (checkRateLimit ?env (getClientIP ?env ?rq) one_request_made))"
    by (simp add: demo_allowed)
  show ?thesis
    unfolding c n
    using m o l j vc vn
    by (simp add: returned_def calls_def validation_failed_fields)
qed

section \<open>The 429 response\<close>

text \<open>
  Claim C6. A POST request that passes the origin guard and is rejected by the rate limiter
  is answered by either endpoint with status 429, a body with \<open>success = false\<close> and
  \<open>retryAfter\<close> the ceiling of \<open>(resetTime - now) / 1000\<close>, and a \<^verbatim>\<open>Retry-After\<close> header that is
  the decimal numeral of the same expression at the handler's next reading of the clock:
  read back as a number, the header is that ceiling. The timestamps are in the range in
  which the delay is computed exactly.
\<close>

theorem rate_limited_gets_429:
  assumes "request_method request = ''POST''" and "validateOrigin env request"
    and "checkRateLimit env (getClientIP env request) s = (rateLimit, s')"
    and "\<not> allowed rateLimit"
    and "exact_delay (resetTime rateLimit) (Date_now env 0)"
    and "exact_delay (resetTime rateLimit) (Date_now env 1)"
  shows "status (returned (contact_POST env request s)) = 429
       \<and> body_field ''success'' (returned (contact_POST env request s)) = Some (JBool False)
       \<and> body_field ''retryAfter'' (returned (contact_POST env request s)) =
           Some (JNum \<lceil>real_of_int (resetTime rateLimit - Date_now env 0) / 1000\<rceil>)
       \<and> header ''Retry-After'' (returned (contact_POST env request s)) =
           Some (toString \<lceil>real_of_int (resetTime rateLimit - Date_now env 1) / 1000\<rceil>)
       \<and> map_option Number_of_string
             (header ''Retry-After'' (returned (contact_POST env request s))) =
           Some \<lceil>real_of_int (resetTime rateLimit - Date_now env 1) / 1000\<rceil>
       \<and> returned (newsletter_POST env request s) = returned (contact_POST env request s)"
proof -
  have c: "returned (contact_POST env request s) = too_many_requests env rateLimit"
    using assms(1-4) by (simp add: contact_POST_limited returned_def)
  have n: "returned (newsletter_POST env request s) = too_many_requests env rateLimit"
    using assms(1-4) by (simp add: newsletter_POST_limited returned_def)
  show ?thesis
    unfolding c n
    by (simp add: too_many_requests_fields Math_ceil_div1000_ceiling
        Number_of_string_toString)
qed

text \<open>The theorem at a client over its quota, 60 seconds before the window is reset, with
  a clock that advances by a millisecond between the two readings.\<close>

theorem rate_limited_gets_429_witness:
  "request_method (demo_request ''https://johnciresi.com'' ''{}'') = ''POST''
   \<and> validateOrigin (demo_env (\<lambda>k. 1000 + int k)) (demo_request ''https://johnciresi.com'' ''{}'')
   \<and> \<not> allowed (fst (checkRateLimit (demo_env (\<lambda>k. 1000 + int k))
          (getClientIP (demo_env (\<lambda>k. 1000 + int k)) (demo_request ''https://johnciresi.com'' ''{}''))
          quota_used))
   \<and> exact_delay 61000 (Date_now (demo_env (\<lambda>k. 1000 + int k)) 0)
   \<and> exact_delay 61000 (Date_now (demo_env (\<lambda>k. 1000 + int k)) 1)
   \<and> status (returned (contact_POST (demo_env (\<lambda>k. 1000 + int k))
         (demo_request ''https://johnciresi.com'' ''{}'') quota_used)) = 429
   \<and> body_field ''retryAfter'' (returned (contact_POST (demo_env (\<lambda>k. 1000 + int k))
         (demo_request ''https://johnciresi.com'' ''{}'') quota_used)) = Some (JNum 60)
   \<and> header ''Retry-After'' (returned (newsletter_POST (demo_env (\<lambda>k. 1000 + int k))
         (demo_request ''https://johnciresi.com'' ''{}'') quota_used)) = Some ''60''
   \<and> Number_of_string ''60'' = 60"
proof -
  let ?env = "demo_env (\<lambda>k. 1000 + int k)"
  let ?rq = "demo_request ''https://johnciresi.com'' ''{}''"
  have m: "request_method ?rq = ''POST''" by (simp add: demo_request_simps)
  have o: "validateOrigin ?env ?rq" by (rule demo_origin_ok)
  have a: "\<not> allowed \<lparr>allowed = False, remaining = 0, resetTime = 61000\<rparr>" by simp
  have x0: "exact_delay (resetTime \<lparr>allowed = False, remaining = 0, resetTime = 61000\<rparr>)
              (Date_now ?env 0)"
    by (simp add: demo_env_simps safe_integer_examples)
  have x1: "exact_delay (resetTime \<lparr>allowed = False, remaining = 0, resetTime = 61000\<rparr>)
              (Date_now ?env 1)"
    by (simp add: demo_env_simps safe_integer_examples)
  note t = rate_limited_gets_429 [OF m o demo_limited a x0 x1]
  have c1: "\<lceil>real_of_int (61000 - 1000) / 1000\<rceil> = (60::int)" by simp
  have c2: "\<lceil>real_of_int (61000 - 1001) / 1000\<rceil> = (60::int)"
    by (simp add: ceiling_eq_iff)
  have l: "\<not> allowed (fst (checkRateLimit ?env (getClientIP ?env ?rq) quota_used))"
    by (simp add: demo_limited)
  have r: "Number_of_string ''60'' = 60"
    by (simp add: Number_of_string_def decimal_def digit_value_def)
  show ?thesis
    using t c1 c2 m o l x0 x1 r by (simp add: demo_env_simps toString_examples)
qed

section \<open>Exceptions\<close>




section \<open>Preflight requests\<close>

text \<open>
  Claim C8. An OPTIONS request to either endpoint is answered with status 200, an empty body
  and the static \<^verbatim>\<open>Access-Control-Allow-*\<close> headers, whatever the request holds: the contact
  handler hands that response to \<^verbatim>\<open>applySecurityHeaders\<close> and makes no other call, the
  newsletter handler makes no call at all; neither calls the rate limiter, reads the body,
  validates or sends email, and the rate limiter's state is as it was.
\<close>

theorem options_static_response:
  "contact_OPTIONS env request s =
     (applySecurityHeaders env contact_preflight ''api'',
      [ApplySecurityHeaders contact_preflight ''api''], s)
   \<and> contact_preflight =
       \<lparr>status = 200,
        headers = [(''Access-Control-Allow-Origin'', ''https://johnciresi.com''),
                   (''Access-Control-Allow-Methods'', ''POST, OPTIONS''),
                   (''Access-Control-Allow-Headers'', ''Content-Type'')],
        body = None\<rparr>
   \<and> (keeps_status env \<longrightarrow> status (returned (contact_OPTIONS env request s)) = 200)
   \<and> newsletter_OPTIONS env request s = (newsletter_preflight, [], s)
   \<and> newsletter_preflight =
       \<lparr>status = 200,
        headers = [(''Access-Control-Allow-Origin'', ''*''),
                   (''Access-Control-Allow-Methods'', ''POST, OPTIONS''),
                   (''Access-Control-Allow-Headers'', ''Content-Type'')],
        body = None\<rparr>
   \<and> submission_calls (calls (contact_OPTIONS env request s)) = []
   \<and> submission_calls (calls (newsletter_OPTIONS env request s)) = []"
  by (simp add: contact_OPTIONS_def newsletter_OPTIONS_def contact_preflight_def
      newsletter_preflight_def Response_def calls_def returned_def submission_calls_def
      keeps_status_def)

text \<open>The theorem at a preflight request that carries a body.\<close>

theorem options_static_response_witness:
  "keeps_status (demo_env (\<lambda>k. 1000))
   \<and> status (returned (contact_OPTIONS (demo_env (\<lambda>k. 1000))
        \<lparr>request_method = ''OPTIONS'', request_headers = [], request_body = ''{}''\<rparr>
        quota_used)) = 200
   \<and> calls (contact_OPTIONS (demo_env (\<lambda>k. 1000))
        \<lparr>request_method = ''OPTIONS'', request_headers = [], request_body = ''{}''\<rparr>
        quota_used) = [ApplySecurityHeaders contact_preflight ''api'']
   \<and> newsletter_OPTIONS (demo_env (\<lambda>k. 1000))
        \<lparr>request_method = ''OPTIONS'', request_headers = [], request_body = ''{}''\<rparr>
        quota_used = (newsletter_preflight, [], quota_used)"
proof -
  note t = options_static_response [of "demo_env (\<lambda>k. 1000)"
      "\<lparr>request_method = ''OPTIONS'', request_headers = [], request_body = ''{}''\<rparr>" quota_used]
  note c = t [THEN conjunct1]
  have k: "keeps_status (demo_env (\<lambda>k. 1000))" by (rule demo_keeps_status)
  have s: "status (returned (contact_OPTIONS (demo_env (\<lambda>k. 1000))
        \<lparr>request_method = ''OPTIONS'', request_headers = [], request_body = ''{}''\<rparr>
        quota_used)) = 200"
    using t k by blast
  have n: "newsletter_OPTIONS (demo_env (\<lambda>k. 1000))
        \<lparr>request_method = ''OPTIONS'', request_headers = [], request_body = ''{}''\<rparr>
        quota_used = (newsletter_preflight, [], quota_used)"
    using t by blast
  show ?thesis
    using k s n by (simp add: c calls_def)
qed

section \<open>The quota is charged before the body is read\<close>

text \<open>
  Claim C9. A POST request that passes the method and the origin check makes its first three
  calls to the origin guard, the address lookup and \<^verbatim>\<open>checkRateLimit\<close> with the client's
  address, in this order, so before any call that reads or validates the body; it calls the
  rate limiter exactly once, and whatever happens afterwards (a body that does not parse, an
  invalid form, a failed send) the rate limiter's state after the run is the state that this
  one call left.
\<close>

theorem rate_limit_charged_before_body:
  assumes "request_method request = ''POST''" and "validateOrigin env request"
  shows "limiter_state (contact_POST env request s) =
           snd (checkRateLimit env (getClientIP env request) s)
       \<and> take 3 (calls (contact_POST env request s)) =
           [ValidateOrigin request, GetClientIP request,
            CheckRateLimit (getClientIP env request)]
       \<and> filter is_rate_limit_call (calls (contact_POST env request s)) =
           [CheckRateLimit (getClientIP env request)]
       \<and> limiter_state (newsletter_POST env request s) =
           snd (checkRateLimit env (getClientIP env request) s)
       \<and> take 3 (calls (newsletter_POST env request s)) =
           [ValidateOrigin request, GetClientIP request,
            CheckRateLimit (getClientIP env request)]
       \<and> filter is_rate_limit_call (calls (newsletter_POST env request s)) =
           [CheckRateLimit (getClientIP env request)]"
proof -
  obtain rateLimit s' where rl: "checkRateLimit env (getClientIP env request) s = (rateLimit, s')"
    by (cases "checkRateLimit env (getClientIP env request) s")
  have c: "limiter_state (contact_POST env request s) = s'
       \<and> take 3 (calls (contact_POST env request s)) =
           [ValidateOrigin request, GetClientIP request,
            CheckRateLimit (getClientIP env request)]
       \<and> filter is_rate_limit_call (calls (contact_POST env request s)) =
           [CheckRateLimit (getClientIP env request)]"
    using assms rl
    by (simp add: contact_POST_def contact_try_def limiter_state_def calls_def Let_def
        split: sum.splits)
  have n: "limiter_state (newsletter_POST env request s) = s'
       \<and> take 3 (calls (newsletter_POST env request s)) =
           [ValidateOrigin request, GetClientIP request,
            CheckRateLimit (getClientIP env request)]
       \<and> filter is_rate_limit_call (calls (newsletter_POST env request s)) =
           [CheckRateLimit (getClientIP env request)]"
    using assms rl
    by (simp add: newsletter_POST_def newsletter_try_def limiter_state_def calls_def Let_def
        split: sum.splits)
  show ?thesis
    using c n by (simp add: rl)
qed

text \<open>The theorem with the rate limiter of the spec: a body that is no JSON (500) and an
  invalid form (400) each raise the client's count from 1 to 2.\<close>

theorem rate_limit_charged_before_body_witness:
  "request_method (demo_request ''https://johnciresi.com'' ''oops'') = ''POST''
   \<and> validateOrigin (demo_env (\<lambda>k. 1000)) (demo_request ''https://johnciresi.com'' ''oops'')
   \<and> one_request_made ''203.0.113.9'' = Some \<lparr>count = 1, windowReset = 61000\<rparr>
   \<and> status (returned (newsletter_POST (demo_env (\<lambda>k. 1000))
         (demo_request ''https://johnciresi.com'' ''oops'') one_request_made)) = 500
   \<and> limiter_state (newsletter_POST (demo_env (\<lambda>k. 1000))
         (demo_request ''https://johnciresi.com'' ''oops'') one_request_made) ''203.0.113.9'' =
       Some \<lparr>count = 2, windowReset = 61000\<rparr>
   \<and> status (returned (contact_POST (demo_env (\<lambda>k. 1000))
         (demo_request ''https://johnciresi.com'' ''{}'') one_request_made)) = 400
   \<and> limiter_state (contact_POST (demo_env (\<lambda>k. 1000))
         (demo_request ''https://johnciresi.com'' ''{}'') one_request_made) ''203.0.113.9'' =
       Some \<lparr>count = 2, windowReset = 61000\<rparr>"
proof -
  let ?env = "demo_env (\<lambda>k. 1000)"
  let ?rq = "demo_request ''https://johnciresi.com'' ''oops''"
  let ?rq' = "demo_request ''https://johnciresi.com'' ''{}''"
  have m: "request_method ?rq = ''POST''" "request_method ?rq' = ''POST''"
    by (simp_all add: demo_request_simps)
  have o: "validateOrigin ?env ?rq" "validateOrigin ?env ?rq'"
    by (rule demo_origin_ok)+
  have before: "one_request_made ''203.0.113.9'' = Some \<lparr>count = 1, windowReset = 61000\<rparr>"
    by (simp add: one_request_made_def)
  have n: "limiter_state (newsletter_POST ?env ?rq one_request_made) ''203.0.113.9'' =
       Some \<lparr>count = 2, windowReset = 61000\<rparr>"
    using rate_limit_charged_before_body [OF m(1) o(1), of one_request_made]
    by (simp add: demo_allowed)
  have c: "limiter_state (contact_POST ?env ?rq' one_request_made) ''203.0.113.9'' =
       Some \<lparr>count = 2, windowReset = 61000\<rparr>"
    using rate_limit_charged_before_body [OF m(2) o(2), of one_request_made]
    by (simp add: demo_allowed)
  have sn: "status (returned (newsletter_POST ?env ?rq one_request_made)) = 500"
    using m(1) o(1)
    by (simp add: newsletter_POST_def newsletter_try_def demo_allowed demo_json_examples
        returned_def internal_server_error_fields)
  have sc: "status (returned (contact_POST ?env ?rq' one_request_made)) = 400"
    using m(2) o(2)
    by (simp add: contact_POST_def contact_try_def demo_allowed demo_json_examples
        demo_env_simps(5) demo_validate_def returned_def validation_failed_fields)
  show ?thesis
    using m(1) o(1) before n c sn sc by simp
qed

section \<open>The retry delay is not clamped\<close>

text \<open>
  Claim C10. In a 429 response of either endpoint the body's \<open>retryAfter\<close> and the number
  that the \<^verbatim>\<open>Retry-After\<close> header denotes are both the ceiling of
  \<open>(resetTime - now) / 1000\<close>, each at its own reading of the clock and with no lower bound:
  when the two readings agree the header denotes the number of the body, and when
  \<open>resetTime \<le> now\<close> the number of the body is zero or negative and the header is \<^verbatim>\<open>0\<close> or
  starts with a minus sign. The timestamps are in the range in which the delay is computed
  exactly.
\<close>

theorem retry_after_unclamped:
  assumes "request_method request = ''POST''" and "validateOrigin env request"
    and "checkRateLimit env (getClientIP env request) s = (rateLimit, s')"
    and "\<not> allowed rateLimit"
    and "exact_delay (resetTime rateLimit) (Date_now env 0)"
    and "exact_delay (resetTime rateLimit) (Date_now env 1)"
  shows "body_field ''retryAfter'' (returned (contact_POST env request s)) =
           Some (JNum \<lceil>real_of_int (resetTime rateLimit - Date_now env 0) / 1000\<rceil>)
       \<and> map_option Number_of_string
             (header ''Retry-After'' (returned (contact_POST env request s))) =
           Some \<lceil>real_of_int (resetTime rateLimit - Date_now env 1) / 1000\<rceil>
       \<and> body_field ''retryAfter'' (returned (newsletter_POST env request s)) =
           Some (JNum \<lceil>real_of_int (resetTime rateLimit - Date_now env 0) / 1000\<rceil>)
       \<and> map_option Number_of_string
             (header ''Retry-After'' (returned (newsletter_POST env request s))) =
           Some \<lceil>real_of_int (resetTime rateLimit - Date_now env 1) / 1000\<rceil>
       \<and> (Date_now env 0 = Date_now env 1 \<longrightarrow>
            map_option (\<lambda>h. JNum (Number_of_string h))
              (header ''Retry-After'' (returned (contact_POST env request s))) =
            body_field ''retryAfter'' (returned (contact_POST env request s))
          \<and> map_option (\<lambda>h. JNum (Number_of_string h))
              (header ''Retry-After'' (returned (newsletter_POST env request s))) =
            body_field ''retryAfter'' (returned (newsletter_POST env request s)))
       \<and> (resetTime rateLimit \<le> Date_now env 0 \<longrightarrow>
            (\<exists>n. n \<le> 0
               \<and> body_field ''retryAfter'' (returned (contact_POST env request s)) = Some (JNum n)
               \<and> body_field ''retryAfter'' (returned (newsletter_POST env request s)) =
                   Some (JNum n)))
       \<and> (resetTime rateLimit \<le> Date_now env 1 \<longrightarrow>
            (\<exists>h. header ''Retry-After'' (returned (contact_POST env request s)) = Some h
               \<and> header ''Retry-After'' (returned (newsletter_POST env request s)) = Some h
               \<and> Number_of_string h \<le> 0
               \<and> (h = ''0'' \<or> (\<exists>ds. h = CHR ''-'' # ds))))"
proof -
  have c: "returned (contact_POST env request s) = too_many_requests env rateLimit"
    using assms(1-4) by (simp add: contact_POST_limited returned_def)
  have n: "returned (newsletter_POST env request s) = too_many_requests env rateLimit"
    using assms(1-4) by (simp add: newsletter_POST_limited returned_def)
  have z: "x \<le> 0 \<Longrightarrow> Math_ceil_div1000 x \<le> 0" for x
    by (rule Math_ceil_div1000_nonpos)
  have b: "resetTime rateLimit \<le> Date_now env 0 \<Longrightarrow>
      \<exists>n. n \<le> 0 \<and> body_field ''retryAfter'' (too_many_requests env rateLimit) = Some (JNum n)"
    using z [of "resetTime rateLimit - Date_now env 0"]
    by (simp add: too_many_requests_fields)
  have h: "resetTime rateLimit \<le> Date_now env 1 \<Longrightarrow>
      \<exists>h. header ''Retry-After'' (too_many_requests env rateLimit) = Some h
         \<and> Number_of_string h \<le> 0 \<and> (h = ''0'' \<or> (\<exists>ds. h = CHR ''-'' # ds))"
    using z [of "resetTime rateLimit - Date_now env 1"]
      toString_not_positive [of "Math_ceil_div1000 (resetTime rateLimit - Date_now env 1)"]
    by (simp add: too_many_requests_fields Number_of_string_toString)
  have e: "Date_now env 0 = Date_now env 1 \<Longrightarrow>
      map_option (\<lambda>h. JNum (Number_of_string h))
        (header ''Retry-After'' (too_many_requests env rateLimit)) =
      body_field ''retryAfter'' (too_many_requests env rateLimit)"
    by (simp add: too_many_requests_fields Number_of_string_toString)
  show ?thesis
    unfolding c n
    using b h e
    by (simp add: too_many_requests_fields(3) too_many_requests_header_value
        Math_ceil_div1000_ceiling)
qed

text \<open>The theorem at a rejected request that is answered two seconds after the window was
  reset: both values are \<open>-2\<close>.\<close>

theorem retry_after_unclamped_witness:
  "request_method (demo_request ''https://johnciresi.com'' ''{}'') = ''POST''
   \<and> validateOrigin (demo_env (\<lambda>k. 63000)) (demo_request ''https://johnciresi.com'' ''{}'')
   \<and> \<not> allowed (fst (checkRateLimit (demo_env (\<lambda>k. 63000))
          (getClientIP (demo_env (\<lambda>k. 63000)) (demo_request ''https://johnciresi.com'' ''{}''))
          quota_used))
   \<and> resetTime (fst (checkRateLimit (demo_env (\<lambda>k. 63000))
          (getClientIP (demo_env (\<lambda>k. 63000)) (demo_request ''https://johnciresi.com'' ''{}''))
          quota_used)) \<le> Date_now (demo_env (\<lambda>k. 63000)) 0
   \<and> Date_now (demo_env (\<lambda>k. 63000)) 0 = Date_now (demo_env (\<lambda>k. 63000)) 1
   \<and> exact_delay 61000 (Date_now (demo_env (\<lambda>k. 63000)) 0)
   \<and> body_field ''retryAfter'' (returned (contact_POST (demo_env (\<lambda>k. 63000))
         (demo_request ''https://johnciresi.com'' ''{}'') quota_used)) = Some (JNum (- 2))
   \<and> header ''Retry-After'' (returned (contact_POST (demo_env (\<lambda>k. 63000))
         (demo_request ''https://johnciresi.com'' ''{}'') quota_used)) = Some ''-2''
   \<and> body_field ''retryAfter'' (returned (newsletter_POST (demo_env (\<lambda>k. 63000))
         (demo_request ''https://johnciresi.com'' ''{}'') quota_used)) = Some (JNum (- 2))
   \<and> header ''Retry-After'' (returned (newsletter_POST (demo_env (\<lambda>k. 63000))
         (demo_request ''https://johnciresi.com'' ''{}'') quota_used)) = Some ''-2''
   \<and> Number_of_string ''-2'' = - 2"
proof -
  let ?env = "demo_env (\<lambda>k. 63000)"
  let ?rq = "demo_request ''https://johnciresi.com'' ''{}''"
  let ?rl = "\<lparr>allowed = False, remaining = 0, resetTime = 61000\<rparr>"
  have m: "request_method ?rq = ''POST''" by (simp add: demo_request_simps)
  have o: "validateOrigin ?env ?rq" by (rule demo_origin_ok)
  have a: "\<not> allowed ?rl" by simp
  have x: "exact_delay (resetTime ?rl) (Date_now ?env 0)" "exact_delay (resetTime ?rl) (Date_now ?env 1)"
    by (simp_all add: demo_env_simps safe_integer_examples)
  note t = retry_after_unclamped [OF m o demo_limited a x]
  have le: "resetTime ?rl \<le> Date_now ?env 1" by (simp add: demo_env_simps)
  from t le obtain h where h: "header ''Retry-After'' (returned (contact_POST ?env ?rq quota_used)) = Some h"
      "header ''Retry-After'' (returned (newsletter_POST ?env ?rq quota_used)) = Some h"
    by blast
  have v: "map_option Number_of_string
             (header ''Retry-After'' (returned (contact_POST ?env ?rq quota_used))) =
           Some \<lceil>real_of_int (resetTime ?rl - Date_now ?env 1) / 1000\<rceil>"
    using t by blast
  have c: "\<lceil>real_of_int (61000 - 63000) / 1000\<rceil> = (- 2::int)" by simp
  have hc: "returned (contact_POST ?env ?rq quota_used) = too_many_requests ?env ?rl"
    using m o a by (simp add: contact_POST_limited [OF m o demo_limited] returned_def)
  have hv: "h = ''-2''"
    using h(1) by (simp add: hc too_many_requests_fields demo_env_simps Math_ceil_div1000_def
        toString_examples)
  have b: "body_field ''retryAfter'' (returned (contact_POST ?env ?rq quota_used)) = Some (JNum (- 2))"
      "body_field ''retryAfter'' (returned (newsletter_POST ?env ?rq quota_used)) = Some (JNum (- 2))"
    using t c by (simp_all add: demo_env_simps)
  have r: "Number_of_string ''-2'' = - 2"
    using v by (simp add: h hv c demo_env_simps)
  have l: "\<not> allowed (fst (checkRateLimit ?env (getClientIP ?env ?rq) quota_used))"
      "resetTime (fst (checkRateLimit ?env (getClientIP ?env ?rq) quota_used)) = 61000"
    by (simp_all add: demo_limited)
  show ?thesis
    using m o l b h r by (simp add: hv demo_env_simps safe_integer_examples)
qed

end
